theory Spec2Isabelle
  imports Main
begin

section \<open>The housekeeping service of the document-collaboration backend\<close>

text \<open>
  A shallow embedding of \<^verbatim>\<open>server/backend/housekeeping/housekeeping.go\<close>.
  The store (\<^verbatim>\<open>database.Database\<close>), the lock service (\<^verbatim>\<open>sync.Coordinator\<close>),
  \<^verbatim>\<open>clients.Deactivate\<close> and the Go runtime are outside the package: they are
  parameters, functions on a world \<open>'w\<close> that they may read and change. Every call the
  code makes to one of them goes through a \<open>call_\<close> wrapper, which runs the parameter
  on the world and appends one event to a trace, so that what was called, in which order
  and with which arguments can be stated. \<^verbatim>\<open>time.Now\<close> and \<^verbatim>\<open>time.Since\<close> only
  feed the duration printed in the log line and are left out.
\<close>

subsection \<open>Data\<close>

text \<open>\<^verbatim>\<open>types.ID\<close> is a string type; a Go \<^verbatim>\<open>error\<close> is represented by its message.\<close>

type_synonym ID = string
type_synonym error = string

text \<open>\<^verbatim>\<open>database.ProjectInfo\<close>: the housekeeping code reads only the field \<^verbatim>\<open>ID\<close>.\<close>

record ProjectInfo =
  ID :: ID

text \<open>
  A Go call either returns its result values or panics. The functions below return
  all their result values also when the error is not nil, as the Go code does.
\<close>

datatype 'a outcome = Returns 'a | Panics

text \<open>
  The calls that leave the package, with their arguments. The lock calls and
  \<^verbatim>\<open>clients.Deactivate\<close> also record the error they gave back (\<open>None\<close> is nil).
  \<open>'l\<close> is the locker, \<open>'k\<close> the client reference key, \<open>'d\<close> the document record.
\<close>

datatype ('l, 'k, 'd) event =
    NewLockerCalled string
  | LockCalled 'l "error option"
  | UnlockCalled 'l "error option"
  | FindNextNCyclingProjectInfosCalled int ID
  | FindDeactivateCandidatesPerProjectCalled ProjectInfo int
  | FindDocumentHardDeletionCandidatesPerProjectCalled ProjectInfo int int
  | DeactivateCalled 'k "error option"
  | DeleteDocumentCalled "'d list"
  | LogError error
  | LogInfof nat int
  | SelectCalled int

text \<open>
  The state threaded through the code: the world of the external services, whether the
  service's context \<^verbatim>\<open>h.ctx\<close> has been cancelled, and the trace of calls so far.
\<close>

record ('w, 'l, 'k, 'd) state =
  world :: 'w
  ctxDone :: bool
  trace :: "('l, 'k, 'd) event list"

text \<open>\<^verbatim>\<open>sync.Coordinator\<close> and the \<^verbatim>\<open>sync.Locker\<close> it creates.\<close>

record ('w, 'l) Coordinator =
  NewLocker :: "string \<Rightarrow> 'w \<Rightarrow> (error + 'l) \<times> 'w"
  Lock :: "'l \<Rightarrow> 'w \<Rightarrow> error option \<times> 'w"
  Unlock :: "'l \<Rightarrow> 'w \<Rightarrow> error option \<times> 'w"

text \<open>
  \<^verbatim>\<open>database.Database\<close>, the methods used here, and the constant
  \<^verbatim>\<open>database.DefaultProjectID\<close>, whose value is not part of the package. The method
  \<^verbatim>\<open>Database.DeleteDocument\<close> is the field \<open>database_DeleteDocument\<close>; the name
  \<open>DeleteDocument\<close> is kept for the sweep of the housekeeping service.
\<close>

record ('w, 'c, 'd) Database =
  DefaultProjectID :: ID
  FindNextNCyclingProjectInfos :: "int \<Rightarrow> ID \<Rightarrow> 'w \<Rightarrow> (error + ProjectInfo list) \<times> 'w"
  FindDeactivateCandidatesPerProject :: "ProjectInfo \<Rightarrow> int \<Rightarrow> 'w \<Rightarrow> (error + 'c list) \<times> 'w"
  FindDocumentHardDeletionCandidatesPerProject ::
    "ProjectInfo \<Rightarrow> int \<Rightarrow> int \<Rightarrow> 'w \<Rightarrow> (error + 'd list) \<times> 'w"
  database_DeleteDocument :: "'d list \<Rightarrow> 'w \<Rightarrow> (error + int) \<times> 'w"

text \<open>
  What else the package calls: the method \<^verbatim>\<open>ClientInfo.RefKey\<close>, the function
  \<^verbatim>\<open>clients.Deactivate\<close> (its first result is the updated client record), and the
  runtime's choice in the \<^verbatim>\<open>select\<close> statement of each loop when the statement
  has to wait or when both of its cases are ready.
\<close>

datatype select_case = TimerFired | CtxDone

record ('w, 'c, 'k) Externals =
  RefKey :: "'c \<Rightarrow> 'k"
  Deactivate :: "'k \<Rightarrow> 'w \<Rightarrow> (error + 'c) \<times> 'w"
  Select :: "int \<Rightarrow> 'w \<Rightarrow> select_case \<times> 'w"

text \<open>
  \<^verbatim>\<open>Housekeeping\<close>. Durations are nanosecond counts. The fields \<^verbatim>\<open>ctx\<close> and
  \<^verbatim>\<open>cancelFunc\<close> are the \<open>ctxDone\<close> flag of the state.
\<close>

record ('w, 'l, 'c, 'd) Housekeeping =
  database :: "('w, 'c, 'd) Database"
  coordinator :: "('w, 'l) Coordinator"
  intervalDeactivateCandidates :: int
  intervalDeleteDocuments :: int
  documentHardDeletionGracefulPeriod :: int
  clientDeactivationCandidateLimitPerProject :: int
  DocumentHardDeletionCandidateLimitPerProject :: int
  projectFetchSize :: int

definition deactivateCandidatesKey :: string where
  "deactivateCandidatesKey = ''housekeeping/deactivateCandidates''"

definition documentHardDeletionLockKey :: string where
  "documentHardDeletionLockKey = ''housekeeping/DocumentHardDeletionLock''"

subsection \<open>Calls that leave the package\<close>

definition called :: "('l, 'k, 'd) event \<Rightarrow> 'w \<Rightarrow> ('w, 'l, 'k, 'd) state \<Rightarrow> ('w, 'l, 'k, 'd) state" where
  "called ev w s = s\<lparr>world := w, trace := trace s @ [ev]\<rparr>"

definition logged :: "('l, 'k, 'd) event \<Rightarrow> ('w, 'l, 'k, 'd) state \<Rightarrow> ('w, 'l, 'k, 'd) state" where
  "logged ev s = s\<lparr>trace := trace s @ [ev]\<rparr>"

definition call_NewLocker ::
  "('w, 'l) Coordinator \<Rightarrow> string \<Rightarrow> ('w, 'l, 'k, 'd) state \<Rightarrow> (error + 'l) \<times> ('w, 'l, 'k, 'd) state" where
  "call_NewLocker co key s =
     (case NewLocker co key (world s) of (r, w) \<Rightarrow> (r, called (NewLockerCalled key) w s))"

definition call_Lock ::
  "('w, 'l) Coordinator \<Rightarrow> 'l \<Rightarrow> ('w, 'l, 'k, 'd) state \<Rightarrow> error option \<times> ('w, 'l, 'k, 'd) state" where
  "call_Lock co locker s =
     (case Lock co locker (world s) of (r, w) \<Rightarrow> (r, called (LockCalled locker r) w s))"

definition call_Unlock ::
  "('w, 'l) Coordinator \<Rightarrow> 'l \<Rightarrow> ('w, 'l, 'k, 'd) state \<Rightarrow> error option \<times> ('w, 'l, 'k, 'd) state" where
  "call_Unlock co locker s =
     (case Unlock co locker (world s) of (r, w) \<Rightarrow> (r, called (UnlockCalled locker r) w s))"

definition call_FindNextNCyclingProjectInfos ::
  "('w, 'c, 'd) Database \<Rightarrow> int \<Rightarrow> ID \<Rightarrow> ('w, 'l, 'k, 'd) state
     \<Rightarrow> (error + ProjectInfo list) \<times> ('w, 'l, 'k, 'd) state" where
  "call_FindNextNCyclingProjectInfos db pageSize lastProjectID s =
     (case FindNextNCyclingProjectInfos db pageSize lastProjectID (world s) of
        (r, w) \<Rightarrow> (r, called (FindNextNCyclingProjectInfosCalled pageSize lastProjectID) w s))"

definition call_FindDeactivateCandidatesPerProject ::
  "('w, 'c, 'd) Database \<Rightarrow> ProjectInfo \<Rightarrow> int \<Rightarrow> ('w, 'l, 'k, 'd) state
     \<Rightarrow> (error + 'c list) \<times> ('w, 'l, 'k, 'd) state" where
  "call_FindDeactivateCandidatesPerProject db project candidatesLimit s =
     (case FindDeactivateCandidatesPerProject db project candidatesLimit (world s) of
        (r, w) \<Rightarrow> (r, called (FindDeactivateCandidatesPerProjectCalled project candidatesLimit) w s))"

definition call_FindDocumentHardDeletionCandidatesPerProject ::
  "('w, 'c, 'd) Database \<Rightarrow> ProjectInfo \<Rightarrow> int \<Rightarrow> int \<Rightarrow> ('w, 'l, 'k, 'd) state
     \<Rightarrow> (error + 'd list) \<times> ('w, 'l, 'k, 'd) state" where
  "call_FindDocumentHardDeletionCandidatesPerProject db project candidatesLimit deletedAfterTime s =
     (case FindDocumentHardDeletionCandidatesPerProject db project candidatesLimit deletedAfterTime (world s) of
        (r, w) \<Rightarrow>
          (r, called (FindDocumentHardDeletionCandidatesPerProjectCalled project candidatesLimit deletedAfterTime) w s))"

definition call_DeleteDocument ::
  "('w, 'c, 'd) Database \<Rightarrow> 'd list \<Rightarrow> ('w, 'l, 'k, 'd) state \<Rightarrow> (error + int) \<times> ('w, 'l, 'k, 'd) state" where
  "call_DeleteDocument db candidates s =
     (case database_DeleteDocument db candidates (world s) of
        (r, w) \<Rightarrow> (r, called (DeleteDocumentCalled candidates) w s))"

definition call_Deactivate ::
  "('w, 'c, 'k) Externals \<Rightarrow> 'k \<Rightarrow> ('w, 'l, 'k, 'd) state \<Rightarrow> (error + 'c) \<times> ('w, 'l, 'k, 'd) state" where
  "call_Deactivate ex refKey s =
     (case Deactivate ex refKey (world s) of
        (r, w) \<Rightarrow> (r, called (DeactivateCalled refKey (case r of Inl err \<Rightarrow> Some err | Inr _ \<Rightarrow> None)) w s))"

subsection \<open>Finding the candidates\<close>

text \<open>
  The \<^verbatim>\<open>for _, project := range projects\<close> loop of \<^verbatim>\<open>FindDeactivateCandidates\<close>:
  one lookup per project, appended to \<open>candidates\<close>; the first lookup error leaves the loop.
\<close>

fun FindDeactivateCandidates_range ::
  "('w, 'c, 'd) Database \<Rightarrow> int \<Rightarrow> ProjectInfo list \<Rightarrow> 'c list \<Rightarrow> ('w, 'l, 'k, 'd) state
     \<Rightarrow> (error + 'c list) \<times> ('w, 'l, 'k, 'd) state" where
  "FindDeactivateCandidates_range db candidatesLimit [] candidates s = (Inr candidates, s)"
| "FindDeactivateCandidates_range db candidatesLimit (project # projects) candidates s =
     (case call_FindDeactivateCandidatesPerProject db project candidatesLimit s of
        (Inl err, s1) \<Rightarrow> (Inl err, s1)
      | (Inr infos, s1) \<Rightarrow>
          FindDeactivateCandidates_range db candidatesLimit projects (candidates @ infos) s1)"

text \<open>
  \<^verbatim>\<open>FindDeactivateCandidates\<close>. Its results are the next cursor, the candidates and
  the error. \<^verbatim>\<open>len(projects)\<close> is a non-negative Go \<^verbatim>\<open>int\<close>, compared with
  \<^verbatim>\<open>projectFetchSize\<close> as signed integers; \<^verbatim>\<open>projects[len(projects)-1]\<close> panics
  with an index out of range when \<open>projects\<close> is empty.
\<close>

definition FindDeactivateCandidates ::
  "('w, 'l, 'c, 'd) Housekeeping \<Rightarrow> int \<Rightarrow> int \<Rightarrow> ID \<Rightarrow> ('w, 'l, 'k, 'd) state
     \<Rightarrow> (ID \<times> 'c list \<times> error option) outcome \<times> ('w, 'l, 'k, 'd) state" where
  "FindDeactivateCandidates h candidatesLimit fetchSize lastProjectID s =
     (case call_FindNextNCyclingProjectInfos (database h) fetchSize lastProjectID s of
        (Inl err, s1) \<Rightarrow> (Returns (DefaultProjectID (database h), [], Some err), s1)
      | (Inr projects, s1) \<Rightarrow>
          (case FindDeactivateCandidates_range (database h) candidatesLimit projects [] s1 of
             (Inl err, s2) \<Rightarrow> (Returns (DefaultProjectID (database h), [], Some err), s2)
           | (Inr candidates, s2) \<Rightarrow>
               (if int (length projects) < fetchSize
                then (Returns (DefaultProjectID (database h), candidates, None), s2)
                else if projects = [] then (Panics, s2)
                else (Returns (ID (last projects), candidates, None), s2))))"

fun FindDocumentHardDeletionCandidates_range ::
  "('w, 'c, 'd) Database \<Rightarrow> int \<Rightarrow> int \<Rightarrow> ProjectInfo list \<Rightarrow> 'd list \<Rightarrow> ('w, 'l, 'k, 'd) state
     \<Rightarrow> (error + 'd list) \<times> ('w, 'l, 'k, 'd) state" where
  "FindDocumentHardDeletionCandidates_range db candidatesLimit deletedAfterTime [] candidates s =
     (Inr candidates, s)"
| "FindDocumentHardDeletionCandidates_range db candidatesLimit deletedAfterTime (project # projects) candidates s =
     (case call_FindDocumentHardDeletionCandidatesPerProject db project candidatesLimit deletedAfterTime s of
        (Inl err, s1) \<Rightarrow> (Inl err, s1)
      | (Inr infos, s1) \<Rightarrow>
          FindDocumentHardDeletionCandidates_range db candidatesLimit deletedAfterTime projects
            (candidates @ infos) s1)"

definition FindDocumentHardDeletionCandidates ::
  "('w, 'l, 'c, 'd) Housekeeping \<Rightarrow> int \<Rightarrow> int \<Rightarrow> int \<Rightarrow> ID \<Rightarrow> ('w, 'l, 'k, 'd) state
     \<Rightarrow> (ID \<times> 'd list \<times> error option) outcome \<times> ('w, 'l, 'k, 'd) state" where
  "FindDocumentHardDeletionCandidates h candidatesLimit fetchSize deletedAfterTime lastProjectID s =
     (case call_FindNextNCyclingProjectInfos (database h) fetchSize lastProjectID s of
        (Inl err, s1) \<Rightarrow> (Returns (DefaultProjectID (database h), [], Some err), s1)
      | (Inr projects, s1) \<Rightarrow>
          (case FindDocumentHardDeletionCandidates_range (database h) candidatesLimit deletedAfterTime
                  projects [] s1 of
             (Inl err, s2) \<Rightarrow> (Returns (DefaultProjectID (database h), [], Some err), s2)
           | (Inr candidates, s2) \<Rightarrow>
               (if int (length projects) < fetchSize
                then (Returns (DefaultProjectID (database h), candidates, None), s2)
                else if projects = [] then (Panics, s2)
                else (Returns (ID (last projects), candidates, None), s2))))"

subsection \<open>The sweeps\<close>

text \<open>
  The deferred function of both sweeps: it runs when the sweep leaves its body, by a
  return or by a panic, unlocks, and logs the error of the unlock if there is one.
\<close>

definition deferred_Unlock ::
  "('w, 'l) Coordinator \<Rightarrow> 'l \<Rightarrow> ('w, 'l, 'k, 'd) state \<Rightarrow> ('w, 'l, 'k, 'd) state" where
  "deferred_Unlock co locker s =
     (case call_Unlock co locker s of
        (Some err, s1) \<Rightarrow> logged (LogError err) s1
      | (None, s1) \<Rightarrow> s1)"

text \<open>
  The \<^verbatim>\<open>for _, clientInfo := range candidates\<close> loop of \<^verbatim>\<open>deactivateCandidates\<close>,
  with the counter \<open>deactivatedCount\<close>; the first error leaves the loop and the sweep.
\<close>

fun deactivateCandidates_range ::
  "('w, 'c, 'k) Externals \<Rightarrow> 'c list \<Rightarrow> int \<Rightarrow> ('w, 'l, 'k, 'd) state
     \<Rightarrow> (error + int) \<times> ('w, 'l, 'k, 'd) state" where
  "deactivateCandidates_range ex [] deactivatedCount s = (Inr deactivatedCount, s)"
| "deactivateCandidates_range ex (clientInfo # candidates) deactivatedCount s =
     (case call_Deactivate ex (RefKey ex clientInfo) s of
        (Inl err, s1) \<Rightarrow> (Inl err, s1)
      | (Inr _, s1) \<Rightarrow> deactivateCandidates_range ex candidates (deactivatedCount + 1) s1)"

text \<open>The part of \<^verbatim>\<open>deactivateCandidates\<close> after the \<^verbatim>\<open>defer\<close> statement.\<close>

definition deactivateCandidates_body ::
  "('w, 'c, 'k) Externals \<Rightarrow> ('w, 'l, 'c, 'd) Housekeeping \<Rightarrow> ID \<Rightarrow> ('w, 'l, 'k, 'd) state
     \<Rightarrow> (ID \<times> error option) outcome \<times> ('w, 'l, 'k, 'd) state" where
  "deactivateCandidates_body ex h housekeepingLastProjectID s =
     (case FindDeactivateCandidates h (clientDeactivationCandidateLimitPerProject h)
             (projectFetchSize h) housekeepingLastProjectID s of
        (Panics, s1) \<Rightarrow> (Panics, s1)
      | (Returns (lastProjectID, candidates, Some err), s1) \<Rightarrow>
          (Returns (DefaultProjectID (database h), Some err), s1)
      | (Returns (lastProjectID, candidates, None), s1) \<Rightarrow>
          (case deactivateCandidates_range ex candidates 0 s1 of
             (Inl err, s2) \<Rightarrow> (Returns (DefaultProjectID (database h), Some err), s2)
           | (Inr deactivatedCount, s2) \<Rightarrow>
               (Returns (lastProjectID, None),
                if length candidates > 0
                then logged (LogInfof (length candidates) deactivatedCount) s2
                else s2)))"

definition deactivateCandidates ::
  "('w, 'c, 'k) Externals \<Rightarrow> ('w, 'l, 'c, 'd) Housekeeping \<Rightarrow> ID \<Rightarrow> ('w, 'l, 'k, 'd) state
     \<Rightarrow> (ID \<times> error option) outcome \<times> ('w, 'l, 'k, 'd) state" where
  "deactivateCandidates ex h housekeepingLastProjectID s =
     (case call_NewLocker (coordinator h) deactivateCandidatesKey s of
        (Inl err, s1) \<Rightarrow> (Returns (DefaultProjectID (database h), Some err), s1)
      | (Inr locker, s1) \<Rightarrow>
          (case call_Lock (coordinator h) locker s1 of
             (Some err, s2) \<Rightarrow> (Returns (DefaultProjectID (database h), Some err), s2)
           | (None, s2) \<Rightarrow>
               (case deactivateCandidates_body ex h housekeepingLastProjectID s2 of
                  (r, s3) \<Rightarrow> (r, deferred_Unlock (coordinator h) locker s3))))"

text \<open>The part of \<^verbatim>\<open>DeleteDocument\<close> after the \<^verbatim>\<open>defer\<close> statement.\<close>

definition DeleteDocument_body ::
  "('w, 'l, 'c, 'd) Housekeeping \<Rightarrow> ID \<Rightarrow> ('w, 'l, 'k, 'd) state
     \<Rightarrow> (ID \<times> error option) outcome \<times> ('w, 'l, 'k, 'd) state" where
  "DeleteDocument_body h housekeepingLastProjectID s =
     (case FindDocumentHardDeletionCandidates h (DocumentHardDeletionCandidateLimitPerProject h)
             (projectFetchSize h) (documentHardDeletionGracefulPeriod h) housekeepingLastProjectID s of
        (Panics, s1) \<Rightarrow> (Panics, s1)
      | (Returns (lastProjectID, candidates, Some err), s1) \<Rightarrow>
          (Returns (DefaultProjectID (database h), Some err), s1)
      | (Returns (lastProjectID, candidates, None), s1) \<Rightarrow>
          (case call_DeleteDocument (database h) candidates s1 of
             (Inl err, s2) \<Rightarrow> (Returns (DefaultProjectID (database h), Some err), s2)
           | (Inr deletedDocumentsCount, s2) \<Rightarrow>
               (Returns (lastProjectID, None),
                if length candidates > 0
                then logged (LogInfof (length candidates) deletedDocumentsCount) s2
                else s2)))"

definition DeleteDocument ::
  "('w, 'l, 'c, 'd) Housekeeping \<Rightarrow> ID \<Rightarrow> ('w, 'l, 'k, 'd) state
     \<Rightarrow> (ID \<times> error option) outcome \<times> ('w, 'l, 'k, 'd) state" where
  "DeleteDocument h housekeepingLastProjectID s =
     (case call_NewLocker (coordinator h) documentHardDeletionLockKey s of
        (Inl err, s1) \<Rightarrow> (Returns (DefaultProjectID (database h), Some err), s1)
      | (Inr locker, s1) \<Rightarrow>
          (case call_Lock (coordinator h) locker s1 of
             (Some err, s2) \<Rightarrow> (Returns (DefaultProjectID (database h), Some err), s2)
           | (None, s2) \<Rightarrow>
               (case DeleteDocument_body h housekeepingLastProjectID s2 of
                  (r, s3) \<Rightarrow> (r, deferred_Unlock (coordinator h) locker s3))))"

subsection \<open>The scheduler loop of each sweep\<close>


text \<open>
  The \<^verbatim>\<open>select\<close> statement of each loop, over the channel of a new timer and
  \<^verbatim>\<open>h.ctx.Done()\<close>. When the context is already cancelled and the interval is
  positive, only the second case is ready and it is taken. Otherwise the runtime
  decides: the statement waits until the timer fires or \<^verbatim>\<open>Stop\<close> cancels the context
  meanwhile, or, with a cancelled context and an interval that is not positive, both
  cases are ready and one of them is chosen.
\<close>

definition select_wait ::
  "('w, 'c, 'k) Externals \<Rightarrow> int \<Rightarrow> ('w, 'l, 'k, 'd) state \<Rightarrow> select_case \<times> ('w, 'l, 'k, 'd) state" where
  "select_wait ex interval s =
     (if ctxDone s \<and> 0 < interval then (CtxDone, logged (SelectCalled interval) s)
      else (case Select ex interval (world s) of
              (c, w) \<Rightarrow> (c, (called (SelectCalled interval) w s)\<lparr>ctxDone := ctxDone s \<or> c = CtxDone\<rparr>)))"

text \<open>
  A loop has no bound of its own: the first argument counts the iterations that
  are still allowed, and \<open>StillRunning\<close> with the current cursor is the result when
  they are used up. A loop that returns has \<open>Returned\<close>; a panic in the sweep is not
  recovered and ends the process.
\<close>

datatype loop_status = Returned | Crashed | StillRunning ID

fun AttachDeactivateCandidates_loop ::
  "('w, 'c, 'k) Externals \<Rightarrow> ('w, 'l, 'c, 'd) Housekeeping \<Rightarrow> nat \<Rightarrow> ID \<Rightarrow> ('w, 'l, 'k, 'd) state
     \<Rightarrow> loop_status \<times> ('w, 'l, 'k, 'd) state" where
  "AttachDeactivateCandidates_loop ex h 0 housekeepingLastProjectID s =
     (StillRunning housekeepingLastProjectID, s)"
| "AttachDeactivateCandidates_loop ex h (Suc n) housekeepingLastProjectID s =
     (case deactivateCandidates ex h housekeepingLastProjectID s of
        (Panics, s1) \<Rightarrow> (Crashed, s1)
      | (Returns (lastProjectID, Some err), s1) \<Rightarrow>
          AttachDeactivateCandidates_loop ex h n housekeepingLastProjectID (logged (LogError err) s1)
      | (Returns (lastProjectID, None), s1) \<Rightarrow>
          (case select_wait ex (intervalDeactivateCandidates h) s1 of
             (TimerFired, s2) \<Rightarrow> AttachDeactivateCandidates_loop ex h n lastProjectID s2
           | (CtxDone, s2) \<Rightarrow> (Returned, s2)))"


fun AttachDocumentHardDeletion_loop ::
  "('w, 'c, 'k) Externals \<Rightarrow> ('w, 'l, 'c, 'd) Housekeeping \<Rightarrow> nat \<Rightarrow> ID \<Rightarrow> ('w, 'l, 'k, 'd) state
     \<Rightarrow> loop_status \<times> ('w, 'l, 'k, 'd) state" where
  "AttachDocumentHardDeletion_loop ex h 0 housekeepingLastProjectID s =
     (StillRunning housekeepingLastProjectID, s)"
| "AttachDocumentHardDeletion_loop ex h (Suc n) housekeepingLastProjectID s =
     (case DeleteDocument h housekeepingLastProjectID s of
        (Panics, s1) \<Rightarrow> (Crashed, s1)
      | (Returns (lastProjectID, Some err), s1) \<Rightarrow>
          AttachDocumentHardDeletion_loop ex h n housekeepingLastProjectID (logged (LogError err) s1)
      | (Returns (lastProjectID, None), s1) \<Rightarrow>
          (case select_wait ex (intervalDeleteDocuments h) s1 of
             (TimerFired, s2) \<Rightarrow> AttachDocumentHardDeletion_loop ex h n lastProjectID s2
           | (CtxDone, s2) \<Rightarrow> (Returned, s2)))"


subsection \<open>Notions used to state the properties\<close>

text \<open>The events a run has added to the trace.\<close>

definition events_since :: "('w, 'l, 'k, 'd) state \<Rightarrow> ('w, 'l, 'k, 'd) state \<Rightarrow> ('l, 'k, 'd) event list" where
  "events_since s s' = drop (length (trace s)) (trace s')"

text \<open>The calls that read or change the store.\<close>

fun isStoreEvent :: "('l, 'k, 'd) event \<Rightarrow> bool" where
  "isStoreEvent (FindNextNCyclingProjectInfosCalled _ _) = True"
| "isStoreEvent (FindDeactivateCandidatesPerProjectCalled _ _) = True"
| "isStoreEvent (FindDocumentHardDeletionCandidatesPerProjectCalled _ _ _) = True"
| "isStoreEvent (DeactivateCalled _ _) = True"
| "isStoreEvent (DeleteDocumentCalled _) = True"
| "isStoreEvent _ = False"

fun isUnlock :: "('l, 'k, 'd) event \<Rightarrow> bool" where
  "isUnlock (UnlockCalled _ _) = True"
| "isUnlock _ = False"

fun isSelect :: "('l, 'k, 'd) event \<Rightarrow> bool" where
  "isSelect (SelectCalled _) = True"
| "isSelect _ = False"

text \<open>What the body of a sweep can add to the trace: store calls and the result line.\<close>

fun isBodyEvent :: "('l, 'k, 'd) event \<Rightarrow> bool" where
  "isBodyEvent (LogInfof _ _) = True"
| "isBodyEvent ev = isStoreEvent ev"

text \<open>
  A per-project lookup in the trace was made with the limit \<open>lim\<close> (and, for documents,
  the grace period \<open>grace\<close>); other events are not constrained.
\<close>

fun clientLookupsUse :: "int \<Rightarrow> ('l, 'k, 'd) event \<Rightarrow> bool" where
  "clientLookupsUse lim (FindDeactivateCandidatesPerProjectCalled _ l) = (l = lim)"
| "clientLookupsUse lim _ = True"

fun documentLookupsUse :: "int \<Rightarrow> int \<Rightarrow> ('l, 'k, 'd) event \<Rightarrow> bool" where
  "documentLookupsUse lim grace (FindDocumentHardDeletionCandidatesPerProjectCalled _ l g) =
     (l = lim \<and> g = grace)"
| "documentLookupsUse lim grace _ = True"

text \<open>What the deferred function adds to the trace when the unlock gives back \<open>r\<close>.\<close>

definition unlock_events :: "'l \<Rightarrow> error option \<Rightarrow> ('l, 'k, 'd) event list" where
  "unlock_events locker r =
     UnlockCalled locker r # (case r of Some err \<Rightarrow> [LogError err] | None \<Rightarrow> [])"

text \<open>
  The lists that the per-project lookup \<open>f\<close> gives for the projects of a page, one after
  the other on the world each lookup leaves behind, up to the first lookup that fails.
\<close>

fun perProjectResults ::
  "(ProjectInfo \<Rightarrow> 'w \<Rightarrow> (error + 'a list) \<times> 'w) \<Rightarrow> ProjectInfo list \<Rightarrow> 'w \<Rightarrow> 'a list list" where
  "perProjectResults f [] w = []"
| "perProjectResults f (project # projects) w =
     (case f project w of
        (Inl err, w1) \<Rightarrow> []
      | (Inr infos, w1) \<Rightarrow> infos # perProjectResults f projects w1)"

text \<open>
  \<open>allDeactivated ex cs w\<close>: deactivating the clients \<open>cs\<close> one after the other from the
  world \<open>w\<close> succeeds for each of them; \<open>deactivatedWorld ex cs w\<close> is the world after
  these calls.
\<close>

fun allDeactivated :: "('w, 'c, 'k) Externals \<Rightarrow> 'c list \<Rightarrow> 'w \<Rightarrow> bool" where
  "allDeactivated ex [] w = True"
| "allDeactivated ex (c # cs) w =
     (case Deactivate ex (RefKey ex c) w of
        (Inl err, w1) \<Rightarrow> False
      | (Inr _, w1) \<Rightarrow> allDeactivated ex cs w1)"

definition deactivatedWorld :: "('w, 'c, 'k) Externals \<Rightarrow> 'c list \<Rightarrow> 'w \<Rightarrow> 'w" where
  "deactivatedWorld ex cs w = foldl (\<lambda>w c. snd (Deactivate ex (RefKey ex c) w)) w cs"

subsection \<open>An example deployment\<close>

text \<open>
  Three projects, fetched two at a time; clients 1, 2 of the first project, 3 of the
  second and 4, 5 of the third are deactivation candidates, documents 10 and 30 are
  deletion candidates. The world is the list of the records acted on so far.
  Deactivating client 2 fails; with \<open>example_ex_flaky\<close> it is client 4 that fails.
\<close>

definition example_projects :: "ProjectInfo list" where
  "example_projects = [\<lparr>ID = ''p1''\<rparr>, \<lparr>ID = ''p2''\<rparr>, \<lparr>ID = ''p3''\<rparr>]"

definition example_db :: "(nat list, nat, nat) Database" where
  "example_db =
     \<lparr>DefaultProjectID = ''000000000000000000000000'',
      FindNextNCyclingProjectInfos = (\<lambda>pageSize lastProjectID w.
        (Inr (take (nat pageSize)
               (if lastProjectID = ''000000000000000000000000'' then example_projects
                else drop 1 (dropWhile (\<lambda>p. ID p \<noteq> lastProjectID) example_projects))), w)),
      FindDeactivateCandidatesPerProject = (\<lambda>project candidatesLimit w.
        (Inr (take (nat candidatesLimit)
               (if ID project = ''p1'' then [1, 2] else if ID project = ''p2'' then [3] else [4, 5])), w)),
      FindDocumentHardDeletionCandidatesPerProject = (\<lambda>project candidatesLimit deletedAfterTime w.
        (Inr (take (nat candidatesLimit)
               (if ID project = ''p1'' then [10] else if ID project = ''p2'' then [] else [30])), w)),
      database_DeleteDocument = (\<lambda>candidates w. (Inr (int (length candidates)), w @ candidates))\<rparr>"

definition example_coordinator :: "(nat list, string) Coordinator" where
  "example_coordinator =
     \<lparr>NewLocker = (\<lambda>key w. (Inr key, w)),
      Lock = (\<lambda>locker w. (None, w)),
      Unlock = (\<lambda>locker w. (None, w))\<rparr>"

text \<open>
  A lock service that cannot be reached, one whose lock is held, and one whose unlock
  fails after it has reached the service, which records the call as 0 in the world.
\<close>

definition example_coordinator_down :: "(nat list, string) Coordinator" where
  "example_coordinator_down = example_coordinator\<lparr>NewLocker := (\<lambda>key w. (Inl ''unreachable'', w))\<rparr>"

definition example_coordinator_held :: "(nat list, string) Coordinator" where
  "example_coordinator_held = example_coordinator\<lparr>Lock := (\<lambda>locker w. (Some ''held'', w))\<rparr>"

definition example_coordinator_stuck :: "(nat list, string) Coordinator" where
  "example_coordinator_stuck = example_coordinator\<lparr>Unlock := (\<lambda>locker w. (Some ''lost lease'', w @ [0]))\<rparr>"

definition example_ex :: "(nat list, nat, nat) Externals" where
  "example_ex =
     \<lparr>RefKey = (\<lambda>c. c),
      Deactivate = (\<lambda>refKey w. if refKey = 2 then (Inl ''deactivate failed'', w) else (Inr refKey, w @ [refKey])),
      Select = (\<lambda>interval w. (TimerFired, w))\<rparr>"

definition example_ex_flaky :: "(nat list, nat, nat) Externals" where
  "example_ex_flaky =
     example_ex\<lparr>Deactivate :=
       (\<lambda>refKey w. if refKey = 4 then (Inl ''deactivate failed'', w) else (Inr refKey, w @ [refKey]))\<rparr>"

definition example_h :: "(nat list, string, nat, nat) Housekeeping" where
  "example_h =
     \<lparr>database = example_db,
      coordinator = example_coordinator,
      intervalDeactivateCandidates = 30,
      intervalDeleteDocuments = 60,
      documentHardDeletionGracefulPeriod = 24,
      clientDeactivationCandidateLimitPerProject = 10,
      DocumentHardDeletionCandidateLimitPerProject = 10,
      projectFetchSize = 2\<rparr>"

definition example_s0 :: "(nat list, string, nat, nat) state" where
  "example_s0 = \<lparr>world = [], ctxDone = False, trace = []\<rparr>"

section \<open>Properties\<close>

subsection \<open>The state after a call\<close>

lemma called_sel [simp]:
  "world (called ev w s) = w" "ctxDone (called ev w s) = ctxDone s" "trace (called ev w s) = trace s @ [ev]"
  by (simp_all add: called_def)

lemma logged_sel [simp]:
  "world (logged ev s) = world s" "ctxDone (logged ev s) = ctxDone s" "trace (logged ev s) = trace s @ [ev]"
  by (simp_all add: logged_def)

lemma called_ctxDone: "called ev w (s\<lparr>ctxDone := b\<rparr>) = (called ev w s)\<lparr>ctxDone := b\<rparr>"
  by (simp add: called_def)

lemma logged_ctxDone: "logged ev (s\<lparr>ctxDone := b\<rparr>) = (logged ev s)\<lparr>ctxDone := b\<rparr>"
  by (simp add: logged_def)

subsection \<open>The lookups over a page\<close>

lemma FindDeactivateCandidates_range_Inr:
  "FindDeactivateCandidates_range db lim ps acc s = (Inr cands, s') \<Longrightarrow>
     trace s' = trace s @ map (\<lambda>p. FindDeactivateCandidatesPerProjectCalled p lim) ps \<and>
     ctxDone s' = ctxDone s \<and>
     cands = acc @ concat (perProjectResults (\<lambda>p. FindDeactivateCandidatesPerProject db p lim) ps (world s)) \<and>
     length (perProjectResults (\<lambda>p. FindDeactivateCandidatesPerProject db p lim) ps (world s)) = length ps"
proof (induction ps arbitrary: acc s)
  case Nil
  then show ?case by simp
next
  case (Cons p ps)
  obtain r w where f: "FindDeactivateCandidatesPerProject db p lim (world s) = (r, w)"
    by (cases "FindDeactivateCandidatesPerProject db p lim (world s)")
  show ?case
  proof (cases r)
    case (Inl err)
    with f Cons.prems show ?thesis
      by (simp add: call_FindDeactivateCandidatesPerProject_def)
  next
    case (Inr infos)
    with f Cons.prems have
      "FindDeactivateCandidates_range db lim ps (acc @ infos)
         (called (FindDeactivateCandidatesPerProjectCalled p lim) w s) = (Inr cands, s')"
      by (simp add: call_FindDeactivateCandidatesPerProject_def)
    from Cons.IH [OF this] f Inr show ?thesis by simp
  qed
qed

lemma FindDeactivateCandidates_range_events:
  "FindDeactivateCandidates_range db lim ps acc s = (r, s') \<Longrightarrow>
     \<exists>evs. trace s' = trace s @ evs \<and> list_all isStoreEvent evs \<and> ctxDone s' = ctxDone s"
proof (induction ps arbitrary: acc s)
  case Nil
  then show ?case by simp
next
  case (Cons p ps)
  obtain r1 w where f: "FindDeactivateCandidatesPerProject db p lim (world s) = (r1, w)"
    by (cases "FindDeactivateCandidatesPerProject db p lim (world s)")
  show ?case
  proof (cases r1)
    case (Inl err)
    with f Cons.prems show ?thesis
      by (auto simp add: call_FindDeactivateCandidatesPerProject_def)
  next
    case (Inr infos)
    with f Cons.prems have
      "FindDeactivateCandidates_range db lim ps (acc @ infos)
         (called (FindDeactivateCandidatesPerProjectCalled p lim) w s) = (r, s')"
      by (simp add: call_FindDeactivateCandidatesPerProject_def)
    from Cons.IH [OF this] show ?thesis by auto
  qed
qed

lemma FindDeactivateCandidates_range_ctxDone:
  "FindDeactivateCandidates_range db lim ps acc (s\<lparr>ctxDone := b\<rparr>) =
     (case FindDeactivateCandidates_range db lim ps acc s of (r, s') \<Rightarrow> (r, s'\<lparr>ctxDone := b\<rparr>))"
  by (induction ps arbitrary: acc s)
     (auto simp add: call_FindDeactivateCandidatesPerProject_def called_ctxDone split: prod.splits sum.splits)


lemma FindDocumentHardDeletionCandidates_range_Inr:
  "FindDocumentHardDeletionCandidates_range db lim grace ps acc s = (Inr cands, s') \<Longrightarrow>
     trace s' = trace s @ map (\<lambda>p. FindDocumentHardDeletionCandidatesPerProjectCalled p lim grace) ps \<and>
     ctxDone s' = ctxDone s \<and>
     cands = acc @ concat (perProjectResults
               (\<lambda>p. FindDocumentHardDeletionCandidatesPerProject db p lim grace) ps (world s)) \<and>
     length (perProjectResults
               (\<lambda>p. FindDocumentHardDeletionCandidatesPerProject db p lim grace) ps (world s)) = length ps"
proof (induction ps arbitrary: acc s)
  case Nil
  then show ?case by simp
next
  case (Cons p ps)
  obtain r w where f: "FindDocumentHardDeletionCandidatesPerProject db p lim grace (world s) = (r, w)"
    by (cases "FindDocumentHardDeletionCandidatesPerProject db p lim grace (world s)")
  show ?case
  proof (cases r)
    case (Inl err)
    with f Cons.prems show ?thesis
      by (simp add: call_FindDocumentHardDeletionCandidatesPerProject_def)
  next
    case (Inr infos)
    with f Cons.prems have
      "FindDocumentHardDeletionCandidates_range db lim grace ps (acc @ infos)
         (called (FindDocumentHardDeletionCandidatesPerProjectCalled p lim grace) w s) = (Inr cands, s')"
      by (simp add: call_FindDocumentHardDeletionCandidatesPerProject_def)
    from Cons.IH [OF this] f Inr show ?thesis by simp
  qed
qed

lemma FindDocumentHardDeletionCandidates_range_events:
  "FindDocumentHardDeletionCandidates_range db lim grace ps acc s = (r, s') \<Longrightarrow>
     \<exists>evs. trace s' = trace s @ evs \<and> list_all isStoreEvent evs \<and> ctxDone s' = ctxDone s"
proof (induction ps arbitrary: acc s)
  case Nil
  then show ?case by simp
next
  case (Cons p ps)
  obtain r1 w where f: "FindDocumentHardDeletionCandidatesPerProject db p lim grace (world s) = (r1, w)"
    by (cases "FindDocumentHardDeletionCandidatesPerProject db p lim grace (world s)")
  show ?case
  proof (cases r1)
    case (Inl err)
    with f Cons.prems show ?thesis
      by (auto simp add: call_FindDocumentHardDeletionCandidatesPerProject_def)
  next
    case (Inr infos)
    with f Cons.prems have
      "FindDocumentHardDeletionCandidates_range db lim grace ps (acc @ infos)
         (called (FindDocumentHardDeletionCandidatesPerProjectCalled p lim grace) w s) = (r, s')"
      by (simp add: call_FindDocumentHardDeletionCandidatesPerProject_def)
    from Cons.IH [OF this] show ?thesis by auto
  qed
qed

lemma FindDocumentHardDeletionCandidates_range_ctxDone:
  "FindDocumentHardDeletionCandidates_range db lim grace ps acc (s\<lparr>ctxDone := b\<rparr>) =
     (case FindDocumentHardDeletionCandidates_range db lim grace ps acc s of
        (r, s') \<Rightarrow> (r, s'\<lparr>ctxDone := b\<rparr>))"
  by (induction ps arbitrary: acc s)
     (auto simp add: call_FindDocumentHardDeletionCandidatesPerProject_def called_ctxDone
           split: prod.splits sum.splits)

subsection \<open>The deactivation loop\<close>

lemma deactivateCandidates_range_Inr:
  "deactivateCandidates_range ex cs n s = (Inr m, s') \<Longrightarrow>
     trace s' = trace s @ map (\<lambda>c. DeactivateCalled (RefKey ex c) None) cs \<and>
     ctxDone s' = ctxDone s \<and> m = n + int (length cs) \<and>
     allDeactivated ex cs (world s) \<and> world s' = deactivatedWorld ex cs (world s)"
proof (induction cs arbitrary: n s)
  case Nil
  then show ?case by (simp add: deactivatedWorld_def)
next
  case (Cons c cs)
  obtain r w where f: "Deactivate ex (RefKey ex c) (world s) = (r, w)"
    by (cases "Deactivate ex (RefKey ex c) (world s)")
  show ?case
  proof (cases r)
    case (Inl err)
    with f Cons.prems show ?thesis by (simp add: call_Deactivate_def)
  next
    case (Inr c')
    with f Cons.prems have
      "deactivateCandidates_range ex cs (n + 1) (called (DeactivateCalled (RefKey ex c) None) w s) = (Inr m, s')"
      by (simp add: call_Deactivate_def)
    from Cons.IH [OF this] f Inr show ?thesis by (simp add: deactivatedWorld_def)
  qed
qed

lemma deactivateCandidates_range_all:
  "allDeactivated ex cs (world s) \<Longrightarrow>
     deactivateCandidates_range ex cs n s =
       (Inr (n + int (length cs)),
        s\<lparr>world := deactivatedWorld ex cs (world s),
          trace := trace s @ map (\<lambda>c. DeactivateCalled (RefKey ex c) None) cs\<rparr>)"
proof (induction cs arbitrary: n s)
  case Nil
  then show ?case by (simp add: deactivatedWorld_def)
next
  case (Cons c cs)
  obtain r w where f: "Deactivate ex (RefKey ex c) (world s) = (r, w)"
    by (cases "Deactivate ex (RefKey ex c) (world s)")
  show ?case
  proof (cases r)
    case (Inl err)
    with f Cons.prems show ?thesis by simp
  next
    case (Inr c')
    with f Cons.prems have "allDeactivated ex cs (world (called (DeactivateCalled (RefKey ex c) None) w s))"
      by simp
    from Cons.IH [OF this] f Inr show ?thesis
      by (simp add: call_Deactivate_def deactivatedWorld_def called_def)
  qed
qed

lemma deactivateCandidates_range_append:
  "deactivateCandidates_range ex (pre @ post) n s =
     (case deactivateCandidates_range ex pre n s of
        (Inl err, s1) \<Rightarrow> (Inl err, s1)
      | (Inr m, s1) \<Rightarrow> deactivateCandidates_range ex post m s1)"
  by (induction pre arbitrary: n s) (auto split: prod.splits sum.splits)

lemma deactivateCandidates_range_events:
  "deactivateCandidates_range ex cs n s = (r, s') \<Longrightarrow>
     \<exists>evs. trace s' = trace s @ evs \<and> list_all isStoreEvent evs \<and> ctxDone s' = ctxDone s"
proof (induction cs arbitrary: n s)
  case Nil
  then show ?case by simp
next
  case (Cons c cs)
  obtain r1 w where f: "Deactivate ex (RefKey ex c) (world s) = (r1, w)"
    by (cases "Deactivate ex (RefKey ex c) (world s)")
  show ?case
  proof (cases r1)
    case (Inl err)
    with f Cons.prems show ?thesis by (auto simp add: call_Deactivate_def)
  next
    case (Inr c')
    with f Cons.prems have
      "deactivateCandidates_range ex cs (n + 1) (called (DeactivateCalled (RefKey ex c) None) w s) = (r, s')"
      by (simp add: call_Deactivate_def)
    from Cons.IH [OF this] show ?thesis by auto
  qed
qed

lemma deactivateCandidates_range_ctxDone:
  "deactivateCandidates_range ex cs n (s\<lparr>ctxDone := b\<rparr>) =
     (case deactivateCandidates_range ex cs n s of (r, s') \<Rightarrow> (r, s'\<lparr>ctxDone := b\<rparr>))"
  by (induction cs arbitrary: n s)
     (auto simp add: call_Deactivate_def called_ctxDone split: prod.splits sum.splits)


subsection \<open>Finding the candidates\<close>

lemma isStoreEvent_isBodyEvent: "isStoreEvent ev \<Longrightarrow> isBodyEvent ev"
  by (cases ev) simp_all

lemma list_all_isBodyEvent: "list_all isStoreEvent evs \<Longrightarrow> list_all isBodyEvent evs"
  by (induction evs) (simp_all add: isStoreEvent_isBodyEvent)

lemma events_since_append: "trace s' = trace s @ evs \<Longrightarrow> events_since s s' = evs"
  by (simp add: events_since_def)

lemma FindDeactivateCandidates_events:
  assumes "FindDeactivateCandidates h lim fs lastID s = (r, s')"
  shows "\<exists>evs. trace s' = trace s @ evs \<and> list_all isStoreEvent evs \<and> ctxDone s' = ctxDone s"
proof -
  obtain r1 w where f: "FindNextNCyclingProjectInfos (database h) fs lastID (world s) = (r1, w)"
    by (cases "FindNextNCyclingProjectInfos (database h) fs lastID (world s)")
  let ?s1 = "called (FindNextNCyclingProjectInfosCalled fs lastID) w s"
  show ?thesis
  proof (cases r1)
    case (Inl err)
    with f assms show ?thesis
      by (auto simp add: FindDeactivateCandidates_def call_FindNextNCyclingProjectInfos_def)
  next
    case (Inr projects)
    obtain r2 s2 where g: "FindDeactivateCandidates_range (database h) lim projects [] ?s1 = (r2, s2)"
      by (cases "FindDeactivateCandidates_range (database h) lim projects [] ?s1")
    from FindDeactivateCandidates_range_events [OF g]
    obtain evs where evs: "trace s2 = trace s @ FindNextNCyclingProjectInfosCalled fs lastID # evs"
      "list_all isStoreEvent evs" "ctxDone s2 = ctxDone s"
      by auto
    from assms f Inr g have "s' = s2"
      by (auto simp add: FindDeactivateCandidates_def call_FindNextNCyclingProjectInfos_def
               split: sum.splits if_splits)
    with evs show ?thesis by auto
  qed
qed

lemma FindDeactivateCandidates_Returns:
  assumes "FindDeactivateCandidates h lim fs lastID s = (Returns (topID, cands, None), s')"
  shows "\<exists>projects w.
           FindNextNCyclingProjectInfos (database h) fs lastID (world s) = (Inr projects, w) \<and>
           topID = (if int (length projects) < fs then DefaultProjectID (database h) else ID (last projects)) \<and>
           (int (length projects) < fs \<or> projects \<noteq> []) \<and>
           trace s' = trace s @ FindNextNCyclingProjectInfosCalled fs lastID
                        # map (\<lambda>p. FindDeactivateCandidatesPerProjectCalled p lim) projects \<and>
           cands = concat (perProjectResults
                     (\<lambda>p. FindDeactivateCandidatesPerProject (database h) p lim) projects w) \<and>
           length (perProjectResults
                     (\<lambda>p. FindDeactivateCandidatesPerProject (database h) p lim) projects w) = length projects"
proof -
  obtain r1 w where f: "FindNextNCyclingProjectInfos (database h) fs lastID (world s) = (r1, w)"
    by (cases "FindNextNCyclingProjectInfos (database h) fs lastID (world s)")
  let ?s1 = "called (FindNextNCyclingProjectInfosCalled fs lastID) w s"
  from assms f obtain projects where r1: "r1 = Inr projects"
    by (cases r1) (auto simp add: FindDeactivateCandidates_def call_FindNextNCyclingProjectInfos_def)
  obtain r2 s2 where g: "FindDeactivateCandidates_range (database h) lim projects [] ?s1 = (r2, s2)"
    by (cases "FindDeactivateCandidates_range (database h) lim projects [] ?s1")
  from assms f r1 g have r2: "r2 = Inr cands" and s2: "s2 = s'"
    and topID: "topID = (if int (length projects) < fs then DefaultProjectID (database h) else ID (last projects))"
    and ne: "int (length projects) < fs \<or> projects \<noteq> []"
    by (auto simp add: FindDeactivateCandidates_def call_FindNextNCyclingProjectInfos_def
             split: sum.splits if_splits)
  from FindDeactivateCandidates_range_Inr [OF g [unfolded r2 s2]] f r1 topID ne
  show ?thesis by simp
qed

lemma FindDeactivateCandidates_error:
  "FindDeactivateCandidates h lim fs lastID s = (Returns (topID, cands, Some err), s') \<Longrightarrow>
     topID = DefaultProjectID (database h) \<and> cands = []"
  by (auto simp add: FindDeactivateCandidates_def split: prod.splits sum.splits if_splits)

lemma FindDeactivateCandidates_ctxDone:
  "FindDeactivateCandidates h lim fs lastID (s\<lparr>ctxDone := b\<rparr>) =
     (case FindDeactivateCandidates h lim fs lastID s of (r, s') \<Rightarrow> (r, s'\<lparr>ctxDone := b\<rparr>))"
  by (auto simp add: FindDeactivateCandidates_def call_FindNextNCyclingProjectInfos_def called_ctxDone
        FindDeactivateCandidates_range_ctxDone split: prod.splits sum.splits)

lemma FindDocumentHardDeletionCandidates_events:
  assumes "FindDocumentHardDeletionCandidates h lim fs grace lastID s = (r, s')"
  shows "\<exists>evs. trace s' = trace s @ evs \<and> list_all isStoreEvent evs \<and> ctxDone s' = ctxDone s"
proof -
  obtain r1 w where f: "FindNextNCyclingProjectInfos (database h) fs lastID (world s) = (r1, w)"
    by (cases "FindNextNCyclingProjectInfos (database h) fs lastID (world s)")
  let ?s1 = "called (FindNextNCyclingProjectInfosCalled fs lastID) w s"
  show ?thesis
  proof (cases r1)
    case (Inl err)
    with f assms show ?thesis
      by (auto simp add: FindDocumentHardDeletionCandidates_def call_FindNextNCyclingProjectInfos_def)
  next
    case (Inr projects)
    obtain r2 s2 where
      g: "FindDocumentHardDeletionCandidates_range (database h) lim grace projects [] ?s1 = (r2, s2)"
      by (cases "FindDocumentHardDeletionCandidates_range (database h) lim grace projects [] ?s1")
    from FindDocumentHardDeletionCandidates_range_events [OF g]
    obtain evs where evs: "trace s2 = trace s @ FindNextNCyclingProjectInfosCalled fs lastID # evs"
      "list_all isStoreEvent evs" "ctxDone s2 = ctxDone s"
      by auto
    from assms f Inr g have "s' = s2"
      by (auto simp add: FindDocumentHardDeletionCandidates_def call_FindNextNCyclingProjectInfos_def
               split: sum.splits if_splits)
    with evs show ?thesis by auto
  qed
qed

lemma FindDocumentHardDeletionCandidates_Returns:
  assumes "FindDocumentHardDeletionCandidates h lim fs grace lastID s = (Returns (topID, cands, None), s')"
  shows "\<exists>projects w.
           FindNextNCyclingProjectInfos (database h) fs lastID (world s) = (Inr projects, w) \<and>
           topID = (if int (length projects) < fs then DefaultProjectID (database h) else ID (last projects)) \<and>
           (int (length projects) < fs \<or> projects \<noteq> []) \<and>
           trace s' = trace s @ FindNextNCyclingProjectInfosCalled fs lastID
                        # map (\<lambda>p. FindDocumentHardDeletionCandidatesPerProjectCalled p lim grace) projects \<and>
           cands = concat (perProjectResults
                     (\<lambda>p. FindDocumentHardDeletionCandidatesPerProject (database h) p lim grace) projects w) \<and>
           length (perProjectResults
                     (\<lambda>p. FindDocumentHardDeletionCandidatesPerProject (database h) p lim grace) projects w)
             = length projects"
proof -
  obtain r1 w where f: "FindNextNCyclingProjectInfos (database h) fs lastID (world s) = (r1, w)"
    by (cases "FindNextNCyclingProjectInfos (database h) fs lastID (world s)")
  let ?s1 = "called (FindNextNCyclingProjectInfosCalled fs lastID) w s"
  from assms f obtain projects where r1: "r1 = Inr projects"
    by (cases r1) (auto simp add: FindDocumentHardDeletionCandidates_def call_FindNextNCyclingProjectInfos_def)
  obtain r2 s2 where
    g: "FindDocumentHardDeletionCandidates_range (database h) lim grace projects [] ?s1 = (r2, s2)"
    by (cases "FindDocumentHardDeletionCandidates_range (database h) lim grace projects [] ?s1")
  from assms f r1 g have r2: "r2 = Inr cands" and s2: "s2 = s'"
    and topID: "topID = (if int (length projects) < fs then DefaultProjectID (database h) else ID (last projects))"
    and ne: "int (length projects) < fs \<or> projects \<noteq> []"
    by (auto simp add: FindDocumentHardDeletionCandidates_def call_FindNextNCyclingProjectInfos_def
             split: sum.splits if_splits)
  from FindDocumentHardDeletionCandidates_range_Inr [OF g [unfolded r2 s2]] f r1 topID ne
  show ?thesis by simp
qed

lemma FindDocumentHardDeletionCandidates_error:
  "FindDocumentHardDeletionCandidates h lim fs grace lastID s = (Returns (topID, cands, Some err), s') \<Longrightarrow>
     topID = DefaultProjectID (database h) \<and> cands = []"
  by (auto simp add: FindDocumentHardDeletionCandidates_def split: prod.splits sum.splits if_splits)

lemma FindDocumentHardDeletionCandidates_ctxDone:
  "FindDocumentHardDeletionCandidates h lim fs grace lastID (s\<lparr>ctxDone := b\<rparr>) =
     (case FindDocumentHardDeletionCandidates h lim fs grace lastID s of (r, s') \<Rightarrow> (r, s'\<lparr>ctxDone := b\<rparr>))"
  by (auto simp add: FindDocumentHardDeletionCandidates_def call_FindNextNCyclingProjectInfos_def
        called_ctxDone FindDocumentHardDeletionCandidates_range_ctxDone split: prod.splits sum.splits)


subsection \<open>The sweeps\<close>

lemma deferred_Unlock_sel:
  "trace (deferred_Unlock co locker s) = trace s @ unlock_events locker (fst (Unlock co locker (world s)))"
  "world (deferred_Unlock co locker s) = snd (Unlock co locker (world s))"
  "ctxDone (deferred_Unlock co locker s) = ctxDone s"
  by (auto simp add: deferred_Unlock_def call_Unlock_def unlock_events_def split: prod.splits option.splits)

lemma deferred_Unlock_ctxDone:
  "deferred_Unlock co locker (s\<lparr>ctxDone := b\<rparr>) = (deferred_Unlock co locker s)\<lparr>ctxDone := b\<rparr>"
  by (auto simp add: deferred_Unlock_def call_Unlock_def called_ctxDone logged_ctxDone
           split: prod.splits option.splits)

lemma deactivateCandidates_body_events:
  assumes "deactivateCandidates_body ex h cur s = (r, s')"
  shows "\<exists>evs. trace s' = trace s @ evs \<and> list_all isBodyEvent evs \<and> ctxDone s' = ctxDone s"
proof -
  let ?find = "FindDeactivateCandidates h (clientDeactivationCandidateLimitPerProject h)
                 (projectFetchSize h) cur s"
  obtain r1 s1 where f: "?find = (r1, s1)" by (cases ?find)
  from FindDeactivateCandidates_events [OF f] obtain evs1 where
    evs1: "trace s1 = trace s @ evs1" "list_all isStoreEvent evs1" "ctxDone s1 = ctxDone s"
    by auto
  show ?thesis
  proof (cases "\<exists>lastProjectID candidates. r1 = Returns (lastProjectID, candidates, None)")
    case False
    with assms f have "s' = s1"
      by (cases r1) (auto simp add: deactivateCandidates_body_def split: option.splits)
    with evs1 show ?thesis by (auto simp add: list_all_isBodyEvent)
  next
    case True
    then obtain lastProjectID candidates where r1: "r1 = Returns (lastProjectID, candidates, None)"
      by auto
    obtain r2 s2 where g: "deactivateCandidates_range ex candidates 0 s1 = (r2, s2)"
      by (cases "deactivateCandidates_range ex candidates 0 s1")
    from deactivateCandidates_range_events [OF g] obtain evs2 where
      evs2: "trace s2 = trace s1 @ evs2" "list_all isStoreEvent evs2" "ctxDone s2 = ctxDone s1"
      by auto
    from assms f r1 g have "s' = s2 \<or> (\<exists>n m. s' = logged (LogInfof n m) s2)"
      by (auto simp add: deactivateCandidates_body_def split: sum.splits if_splits)
    with evs1 evs2 show ?thesis by (auto simp add: list_all_isBodyEvent)
  qed
qed

lemma deactivateCandidates_body_error:
  "deactivateCandidates_body ex h cur s = (Returns (c, Some err), s') \<Longrightarrow>
     c = DefaultProjectID (database h)"
  by (auto simp add: deactivateCandidates_body_def split: prod.splits sum.splits outcome.splits option.splits)

lemma deactivateCandidates_body_ctxDone:
  "deactivateCandidates_body ex h cur (s\<lparr>ctxDone := b\<rparr>) =
     (case deactivateCandidates_body ex h cur s of (r, s') \<Rightarrow> (r, s'\<lparr>ctxDone := b\<rparr>))"
  by (auto simp add: deactivateCandidates_body_def FindDeactivateCandidates_ctxDone
        deactivateCandidates_range_ctxDone logged_ctxDone
        split: prod.splits sum.splits outcome.splits option.splits)

lemma FindDeactivateCandidates_coordinator:
  "FindDeactivateCandidates (h\<lparr>coordinator := co\<rparr>) lim fs lastID s =
     FindDeactivateCandidates h lim fs lastID s"
  by (simp add: FindDeactivateCandidates_def split: prod.splits sum.splits)

lemma deactivateCandidates_body_coordinator:
  "deactivateCandidates_body ex (h\<lparr>coordinator := co\<rparr>) cur s = deactivateCandidates_body ex h cur s"
  by (simp add: deactivateCandidates_body_def FindDeactivateCandidates_coordinator
           split: prod.splits sum.splits outcome.splits option.splits)

lemma DeleteDocument_body_events:
  assumes "DeleteDocument_body h cur s = (r, s')"
  shows "\<exists>evs. trace s' = trace s @ evs \<and> list_all isBodyEvent evs \<and> ctxDone s' = ctxDone s"
proof -
  let ?find = "FindDocumentHardDeletionCandidates h (DocumentHardDeletionCandidateLimitPerProject h)
                 (projectFetchSize h) (documentHardDeletionGracefulPeriod h) cur s"
  obtain r1 s1 where f: "?find = (r1, s1)" by (cases ?find)
  from FindDocumentHardDeletionCandidates_events [OF f] obtain evs1 where
    evs1: "trace s1 = trace s @ evs1" "list_all isStoreEvent evs1" "ctxDone s1 = ctxDone s"
    by auto
  show ?thesis
  proof (cases "\<exists>lastProjectID candidates. r1 = Returns (lastProjectID, candidates, None)")
    case False
    with assms f have "s' = s1"
      by (cases r1) (auto simp add: DeleteDocument_body_def split: option.splits)
    with evs1 show ?thesis by (auto simp add: list_all_isBodyEvent)
  next
    case True
    then obtain lastProjectID candidates where r1: "r1 = Returns (lastProjectID, candidates, None)"
      by auto
    obtain r2 w2 where g: "database_DeleteDocument (database h) candidates (world s1) = (r2, w2)"
      by (cases "database_DeleteDocument (database h) candidates (world s1)")
    let ?s2 = "called (DeleteDocumentCalled candidates) w2 s1"
    from assms f r1 g have "s' = ?s2 \<or> (\<exists>n m. s' = logged (LogInfof n m) ?s2)"
      by (auto simp add: DeleteDocument_body_def call_DeleteDocument_def split: sum.splits if_splits)
    with evs1 show ?thesis by (auto simp add: list_all_isBodyEvent)
  qed
qed

lemma DeleteDocument_body_error:
  "DeleteDocument_body h cur s = (Returns (c, Some err), s') \<Longrightarrow> c = DefaultProjectID (database h)"
  by (auto simp add: DeleteDocument_body_def split: prod.splits sum.splits outcome.splits option.splits)

lemma DeleteDocument_body_ctxDone:
  "DeleteDocument_body h cur (s\<lparr>ctxDone := b\<rparr>) =
     (case DeleteDocument_body h cur s of (r, s') \<Rightarrow> (r, s'\<lparr>ctxDone := b\<rparr>))"
  by (auto simp add: DeleteDocument_body_def FindDocumentHardDeletionCandidates_ctxDone
        call_DeleteDocument_def called_ctxDone logged_ctxDone
        split: prod.splits sum.splits outcome.splits option.splits)

lemma FindDocumentHardDeletionCandidates_coordinator:
  "FindDocumentHardDeletionCandidates (h\<lparr>coordinator := co\<rparr>) lim fs grace lastID s =
     FindDocumentHardDeletionCandidates h lim fs grace lastID s"
  by (simp add: FindDocumentHardDeletionCandidates_def split: prod.splits sum.splits)

lemma DeleteDocument_body_coordinator:
  "DeleteDocument_body (h\<lparr>coordinator := co\<rparr>) cur s = DeleteDocument_body h cur s"
  by (simp add: DeleteDocument_body_def FindDocumentHardDeletionCandidates_coordinator
           split: prod.splits sum.splits outcome.splits option.splits)

text \<open>The three ways through a sweep, by what the lock service answers.\<close>

lemma deactivateCandidates_no_locker:
  "NewLocker (coordinator h) deactivateCandidatesKey (world s) = (Inl err, w) \<Longrightarrow>
     deactivateCandidates ex h cur s =
       (Returns (DefaultProjectID (database h), Some err),
        called (NewLockerCalled deactivateCandidatesKey) w s)"
  by (simp add: deactivateCandidates_def call_NewLocker_def)

lemma deactivateCandidates_no_lock:
  "NewLocker (coordinator h) deactivateCandidatesKey (world s) = (Inr locker, w) \<Longrightarrow>
   Lock (coordinator h) locker w = (Some err, w') \<Longrightarrow>
     deactivateCandidates ex h cur s =
       (Returns (DefaultProjectID (database h), Some err),
        called (LockCalled locker (Some err)) w' (called (NewLockerCalled deactivateCandidatesKey) w s))"
  by (simp add: deactivateCandidates_def call_NewLocker_def call_Lock_def)

lemma deactivateCandidates_locked:
  "NewLocker (coordinator h) deactivateCandidatesKey (world s) = (Inr locker, w) \<Longrightarrow>
   Lock (coordinator h) locker w = (None, w') \<Longrightarrow>
   deactivateCandidates_body ex h cur
     (called (LockCalled locker None) w' (called (NewLockerCalled deactivateCandidatesKey) w s)) = (r, s3) \<Longrightarrow>
     deactivateCandidates ex h cur s = (r, deferred_Unlock (coordinator h) locker s3)"
  by (simp add: deactivateCandidates_def call_NewLocker_def call_Lock_def)

lemma DeleteDocument_no_locker:
  "NewLocker (coordinator h) documentHardDeletionLockKey (world s) = (Inl err, w) \<Longrightarrow>
     DeleteDocument h cur s =
       (Returns (DefaultProjectID (database h), Some err),
        called (NewLockerCalled documentHardDeletionLockKey) w s)"
  by (simp add: DeleteDocument_def call_NewLocker_def)

lemma DeleteDocument_no_lock:
  "NewLocker (coordinator h) documentHardDeletionLockKey (world s) = (Inr locker, w) \<Longrightarrow>
   Lock (coordinator h) locker w = (Some err, w') \<Longrightarrow>
     DeleteDocument h cur s =
       (Returns (DefaultProjectID (database h), Some err),
        called (LockCalled locker (Some err)) w' (called (NewLockerCalled documentHardDeletionLockKey) w s))"
  by (simp add: DeleteDocument_def call_NewLocker_def call_Lock_def)

lemma DeleteDocument_locked:
  "NewLocker (coordinator h) documentHardDeletionLockKey (world s) = (Inr locker, w) \<Longrightarrow>
   Lock (coordinator h) locker w = (None, w') \<Longrightarrow>
   DeleteDocument_body h cur
     (called (LockCalled locker None) w' (called (NewLockerCalled documentHardDeletionLockKey) w s)) = (r, s3) \<Longrightarrow>
     DeleteDocument h cur s = (r, deferred_Unlock (coordinator h) locker s3)"
  by (simp add: DeleteDocument_def call_NewLocker_def call_Lock_def)

lemmas example_defs = example_h_def example_db_def example_coordinator_def example_ex_def example_s0_def
  example_projects_def

lemmas sweep_defs = deactivateCandidates_def deactivateCandidates_body_def DeleteDocument_def
  DeleteDocument_body_def FindDeactivateCandidates_def FindDocumentHardDeletionCandidates_def
  deferred_Unlock_def call_NewLocker_def call_Lock_def call_Unlock_def
  call_FindNextNCyclingProjectInfos_def call_FindDeactivateCandidatesPerProject_def
  call_FindDocumentHardDeletionCandidatesPerProject_def call_DeleteDocument_def call_Deactivate_def
  called_def logged_def deactivateCandidatesKey_def documentHardDeletionLockKey_def

lemma deactivateCandidates_error:
  assumes "deactivateCandidates ex h cur s = (Returns (c, Some err), s')"
  shows "c = DefaultProjectID (database h)"
proof -
  obtain r1 w where n: "NewLocker (coordinator h) deactivateCandidatesKey (world s) = (r1, w)"
    by (cases "NewLocker (coordinator h) deactivateCandidatesKey (world s)")
  show ?thesis
  proof (cases r1)
    case (Inl e)
    from deactivateCandidates_no_locker [OF n [unfolded Inl]] assms show ?thesis by simp
  next
    case (Inr locker)
    obtain r2 w' where l: "Lock (coordinator h) locker w = (r2, w')"
      by (cases "Lock (coordinator h) locker w")
    show ?thesis
    proof (cases r2)
      case (Some e)
      from deactivateCandidates_no_lock [OF n [unfolded Inr] l [unfolded Some]] assms
      show ?thesis by simp
    next
      case None
      let ?s2 = "called (LockCalled locker None) w' (called (NewLockerCalled deactivateCandidatesKey) w s)"
      obtain r s3 where b: "deactivateCandidates_body ex h cur ?s2 = (r, s3)"
        by (cases "deactivateCandidates_body ex h cur ?s2")
      from deactivateCandidates_locked [OF n [unfolded Inr] l [unfolded None] b] assms
      have "r = Returns (c, Some err)" by simp
      with b deactivateCandidates_body_error show ?thesis by blast
    qed
  qed
qed

lemma DeleteDocument_error:
  assumes "DeleteDocument h cur s = (Returns (c, Some err), s')"
  shows "c = DefaultProjectID (database h)"
proof -
  obtain r1 w where n: "NewLocker (coordinator h) documentHardDeletionLockKey (world s) = (r1, w)"
    by (cases "NewLocker (coordinator h) documentHardDeletionLockKey (world s)")
  show ?thesis
  proof (cases r1)
    case (Inl e)
    from DeleteDocument_no_locker [OF n [unfolded Inl]] assms show ?thesis by simp
  next
    case (Inr locker)
    obtain r2 w' where l: "Lock (coordinator h) locker w = (r2, w')"
      by (cases "Lock (coordinator h) locker w")
    show ?thesis
    proof (cases r2)
      case (Some e)
      from DeleteDocument_no_lock [OF n [unfolded Inr] l [unfolded Some]] assms
      show ?thesis by simp
    next
      case None
      let ?s2 = "called (LockCalled locker None) w' (called (NewLockerCalled documentHardDeletionLockKey) w s)"
      obtain r s3 where b: "DeleteDocument_body h cur ?s2 = (r, s3)"
        by (cases "DeleteDocument_body h cur ?s2")
      from DeleteDocument_locked [OF n [unfolded Inr] l [unfolded None] b] assms
      have "r = Returns (c, Some err)" by simp
      with b DeleteDocument_body_error show ?thesis by blast
    qed
  qed
qed

subsection \<open>The cursor returned with an error\<close>

text \<open>
  Claim C9. Whenever a sweep, \<open>deactivateCandidates\<close> or \<open>DeleteDocument\<close>, returns an
  error that is not nil, the cursor it returns with the error is the sentinel
  \<open>DefaultProjectID\<close>, whatever the cursor it was called with.
\<close>

theorem sweep_error_cursor_is_sentinel:
  "(deactivateCandidates ex h cur s = (Returns (c, Some err), s') \<longrightarrow> c = DefaultProjectID (database h)) \<and>
   (DeleteDocument h cur t = (Returns (c', Some err'), t') \<longrightarrow> c' = DefaultProjectID (database h))"
  using deactivateCandidates_error DeleteDocument_error by blast

theorem sweep_error_cursor_is_sentinel_witness:
  "deactivateCandidates example_ex (example_h\<lparr>coordinator := example_coordinator_held\<rparr>) ''p2'' example_s0 =
     (Returns (''000000000000000000000000'', Some ''held''),
      \<lparr>world = [], ctxDone = False,
        trace = [NewLockerCalled ''housekeeping/deactivateCandidates'',
                 LockCalled ''housekeeping/deactivateCandidates'' (Some ''held'')]\<rparr>) \<and>
   DeleteDocument (example_h\<lparr>coordinator := example_coordinator_held\<rparr>) ''p2'' example_s0 =
     (Returns (''000000000000000000000000'', Some ''held''),
      \<lparr>world = [], ctxDone = False,
        trace = [NewLockerCalled ''housekeeping/DocumentHardDeletionLock'',
                 LockCalled ''housekeeping/DocumentHardDeletionLock'' (Some ''held'')]\<rparr>) \<and>
   ''000000000000000000000000'' =
     DefaultProjectID (database (example_h\<lparr>coordinator := example_coordinator_held\<rparr>))"
  using sweep_error_cursor_is_sentinel
    [where ex = example_ex and h = "example_h\<lparr>coordinator := example_coordinator_held\<rparr>"
       and cur = "''p2''" and s = example_s0 and err = "''held''" and t = example_s0 and err' = "''held''"]
  by (simp add: example_defs example_coordinator_held_def sweep_defs)

subsection \<open>The limits of the lookups\<close>

lemma FindDeactivateCandidates_range_limit:
  "FindDeactivateCandidates_range db lim ps acc s = (r, s') \<Longrightarrow>
     \<exists>evs. trace s' = trace s @ evs \<and> list_all (clientLookupsUse lim) evs"
proof (induction ps arbitrary: acc s)
  case Nil
  then show ?case by simp
next
  case (Cons p ps)
  obtain r1 w where f: "FindDeactivateCandidatesPerProject db p lim (world s) = (r1, w)"
    by (cases "FindDeactivateCandidatesPerProject db p lim (world s)")
  show ?case
  proof (cases r1)
    case (Inl err)
    with f Cons.prems show ?thesis
      by (auto simp add: call_FindDeactivateCandidatesPerProject_def)
  next
    case (Inr infos)
    with f Cons.prems have
      "FindDeactivateCandidates_range db lim ps (acc @ infos)
         (called (FindDeactivateCandidatesPerProjectCalled p lim) w s) = (r, s')"
      by (simp add: call_FindDeactivateCandidatesPerProject_def)
    from Cons.IH [OF this] show ?thesis by auto
  qed
qed

lemma FindDeactivateCandidates_limit:
  assumes "FindDeactivateCandidates h lim fs lastID s = (r, s')"
  shows "\<exists>evs. trace s' = trace s @ evs \<and> list_all (clientLookupsUse lim) evs"
proof -
  obtain r1 w where f: "FindNextNCyclingProjectInfos (database h) fs lastID (world s) = (r1, w)"
    by (cases "FindNextNCyclingProjectInfos (database h) fs lastID (world s)")
  let ?s1 = "called (FindNextNCyclingProjectInfosCalled fs lastID) w s"
  show ?thesis
  proof (cases r1)
    case (Inl err)
    with f assms show ?thesis
      by (auto simp add: FindDeactivateCandidates_def call_FindNextNCyclingProjectInfos_def)
  next
    case (Inr projects)
    obtain r2 s2 where g: "FindDeactivateCandidates_range (database h) lim projects [] ?s1 = (r2, s2)"
      by (cases "FindDeactivateCandidates_range (database h) lim projects [] ?s1")
    from FindDeactivateCandidates_range_limit [OF g]
    obtain evs where evs: "trace s2 = trace s @ FindNextNCyclingProjectInfosCalled fs lastID # evs"
      "list_all (clientLookupsUse lim) evs"
      by auto
    from assms f Inr g have "s' = s2"
      by (auto simp add: FindDeactivateCandidates_def call_FindNextNCyclingProjectInfos_def
               split: sum.splits if_splits)
    with evs show ?thesis by auto
  qed
qed

lemma deactivateCandidates_range_limit:
  "deactivateCandidates_range ex cs n s = (r, s') \<Longrightarrow>
     \<exists>evs. trace s' = trace s @ evs \<and> list_all (clientLookupsUse lim) evs"
proof (induction cs arbitrary: n s)
  case Nil
  then show ?case by simp
next
  case (Cons c cs)
  obtain r1 w where f: "Deactivate ex (RefKey ex c) (world s) = (r1, w)"
    by (cases "Deactivate ex (RefKey ex c) (world s)")
  show ?case
  proof (cases r1)
    case (Inl err)
    with f Cons.prems show ?thesis by (auto simp add: call_Deactivate_def)
  next
    case (Inr c')
    with f Cons.prems have
      "deactivateCandidates_range ex cs (n + 1) (called (DeactivateCalled (RefKey ex c) None) w s) = (r, s')"
      by (simp add: call_Deactivate_def)
    from Cons.IH [OF this] show ?thesis by auto
  qed
qed

lemma deactivateCandidates_body_limit:
  assumes "deactivateCandidates_body ex h cur s = (r, s')"
  shows "\<exists>evs. trace s' = trace s @ evs \<and>
           list_all (clientLookupsUse (clientDeactivationCandidateLimitPerProject h)) evs"
proof -
  let ?lim = "clientDeactivationCandidateLimitPerProject h"
  let ?find = "FindDeactivateCandidates h ?lim (projectFetchSize h) cur s"
  obtain r1 s1 where f: "?find = (r1, s1)" by (cases ?find)
  from FindDeactivateCandidates_limit [OF f] obtain evs1 where
    evs1: "trace s1 = trace s @ evs1" "list_all (clientLookupsUse ?lim) evs1"
    by auto
  show ?thesis
  proof (cases "\<exists>lastProjectID candidates. r1 = Returns (lastProjectID, candidates, None)")
    case False
    with assms f have "s' = s1"
      by (cases r1) (auto simp add: deactivateCandidates_body_def split: option.splits)
    with evs1 show ?thesis by auto
  next
    case True
    then obtain lastProjectID candidates where r1: "r1 = Returns (lastProjectID, candidates, None)"
      by auto
    obtain r2 s2 where g: "deactivateCandidates_range ex candidates 0 s1 = (r2, s2)"
      by (cases "deactivateCandidates_range ex candidates 0 s1")
    from deactivateCandidates_range_limit [OF g] obtain evs2 where
      evs2: "trace s2 = trace s1 @ evs2" "list_all (clientLookupsUse ?lim) evs2"
      by auto
    from assms f r1 g have "s' = s2 \<or> (\<exists>n m. s' = logged (LogInfof n m) s2)"
      by (auto simp add: deactivateCandidates_body_def split: sum.splits if_splits)
    with evs1 evs2 show ?thesis by auto
  qed
qed

lemma FindDocumentHardDeletionCandidates_range_limit:
  "FindDocumentHardDeletionCandidates_range db lim grace ps acc s = (r, s') \<Longrightarrow>
     \<exists>evs. trace s' = trace s @ evs \<and> list_all (documentLookupsUse lim grace) evs"
proof (induction ps arbitrary: acc s)
  case Nil
  then show ?case by simp
next
  case (Cons p ps)
  obtain r1 w where f: "FindDocumentHardDeletionCandidatesPerProject db p lim grace (world s) = (r1, w)"
    by (cases "FindDocumentHardDeletionCandidatesPerProject db p lim grace (world s)")
  show ?case
  proof (cases r1)
    case (Inl err)
    with f Cons.prems show ?thesis
      by (auto simp add: call_FindDocumentHardDeletionCandidatesPerProject_def)
  next
    case (Inr infos)
    with f Cons.prems have
      "FindDocumentHardDeletionCandidates_range db lim grace ps (acc @ infos)
         (called (FindDocumentHardDeletionCandidatesPerProjectCalled p lim grace) w s) = (r, s')"
      by (simp add: call_FindDocumentHardDeletionCandidatesPerProject_def)
    from Cons.IH [OF this] show ?thesis by auto
  qed
qed

lemma FindDocumentHardDeletionCandidates_limit:
  assumes "FindDocumentHardDeletionCandidates h lim fs grace lastID s = (r, s')"
  shows "\<exists>evs. trace s' = trace s @ evs \<and> list_all (documentLookupsUse lim grace) evs"
proof -
  obtain r1 w where f: "FindNextNCyclingProjectInfos (database h) fs lastID (world s) = (r1, w)"
    by (cases "FindNextNCyclingProjectInfos (database h) fs lastID (world s)")
  let ?s1 = "called (FindNextNCyclingProjectInfosCalled fs lastID) w s"
  show ?thesis
  proof (cases r1)
    case (Inl err)
    with f assms show ?thesis
      by (auto simp add: FindDocumentHardDeletionCandidates_def call_FindNextNCyclingProjectInfos_def)
  next
    case (Inr projects)
    obtain r2 s2 where
      g: "FindDocumentHardDeletionCandidates_range (database h) lim grace projects [] ?s1 = (r2, s2)"
      by (cases "FindDocumentHardDeletionCandidates_range (database h) lim grace projects [] ?s1")
    from FindDocumentHardDeletionCandidates_range_limit [OF g]
    obtain evs where evs: "trace s2 = trace s @ FindNextNCyclingProjectInfosCalled fs lastID # evs"
      "list_all (documentLookupsUse lim grace) evs"
      by auto
    from assms f Inr g have "s' = s2"
      by (auto simp add: FindDocumentHardDeletionCandidates_def call_FindNextNCyclingProjectInfos_def
               split: sum.splits if_splits)
    with evs show ?thesis by auto
  qed
qed

lemma DeleteDocument_body_limit:
  assumes "DeleteDocument_body h cur s = (r, s')"
  shows "\<exists>evs. trace s' = trace s @ evs \<and>
           list_all (documentLookupsUse (DocumentHardDeletionCandidateLimitPerProject h)
                       (documentHardDeletionGracefulPeriod h)) evs"
proof -
  let ?find = "FindDocumentHardDeletionCandidates h (DocumentHardDeletionCandidateLimitPerProject h)
                 (projectFetchSize h) (documentHardDeletionGracefulPeriod h) cur s"
  obtain r1 s1 where f: "?find = (r1, s1)" by (cases ?find)
  from FindDocumentHardDeletionCandidates_limit [OF f] obtain evs1 where
    evs1: "trace s1 = trace s @ evs1"
      "list_all (documentLookupsUse (DocumentHardDeletionCandidateLimitPerProject h)
                   (documentHardDeletionGracefulPeriod h)) evs1"
    by auto
  show ?thesis
  proof (cases "\<exists>lastProjectID candidates. r1 = Returns (lastProjectID, candidates, None)")
    case False
    with assms f have "s' = s1"
      by (cases r1) (auto simp add: DeleteDocument_body_def split: option.splits)
    with evs1 show ?thesis by auto
  next
    case True
    then obtain lastProjectID candidates where r1: "r1 = Returns (lastProjectID, candidates, None)"
      by auto
    obtain r2 w2 where g: "database_DeleteDocument (database h) candidates (world s1) = (r2, w2)"
      by (cases "database_DeleteDocument (database h) candidates (world s1)")
    let ?s2 = "called (DeleteDocumentCalled candidates) w2 s1"
    from assms f r1 g have "s' = ?s2 \<or> (\<exists>n m. s' = logged (LogInfof n m) ?s2)"
      by (auto simp add: DeleteDocument_body_def call_DeleteDocument_def split: sum.splits if_splits)
    with evs1 show ?thesis by auto
  qed
qed

subsection \<open>The shape of a sweep\<close>

text \<open>
  A sweep ends after the locker could not be created, after the lock could not be taken,
  or after its body and the deferred unlock have run.
\<close>

lemma deactivateCandidates_shape:
  assumes "deactivateCandidates ex h cur s = (r, s')"
  shows "ctxDone s' = ctxDone s \<and>
    ((\<exists>err w. NewLocker (coordinator h) deactivateCandidatesKey (world s) = (Inl err, w) \<and>
        r = Returns (DefaultProjectID (database h), Some err) \<and> world s' = w \<and>
        trace s' = trace s @ [NewLockerCalled deactivateCandidatesKey]) \<or>
     (\<exists>locker w err w'. NewLocker (coordinator h) deactivateCandidatesKey (world s) = (Inr locker, w) \<and>
        Lock (coordinator h) locker w = (Some err, w') \<and>
        r = Returns (DefaultProjectID (database h), Some err) \<and> world s' = w' \<and>
        trace s' = trace s @ [NewLockerCalled deactivateCandidatesKey, LockCalled locker (Some err)]) \<or>
     (\<exists>locker w w' evs u. NewLocker (coordinator h) deactivateCandidatesKey (world s) = (Inr locker, w) \<and>
        Lock (coordinator h) locker w = (None, w') \<and>
        trace s' = trace s @ NewLockerCalled deactivateCandidatesKey # LockCalled locker None # evs
                     @ unlock_events locker u \<and>
        list_all isBodyEvent evs \<and>
        list_all (clientLookupsUse (clientDeactivationCandidateLimitPerProject h)) evs))"
proof -
  obtain r1 w where n: "NewLocker (coordinator h) deactivateCandidatesKey (world s) = (r1, w)"
    by (cases "NewLocker (coordinator h) deactivateCandidatesKey (world s)")
  show ?thesis
  proof (cases r1)
    case (Inl e)
    from deactivateCandidates_no_locker [OF n [unfolded Inl]] assms n Inl show ?thesis by auto
  next
    case (Inr locker)
    obtain r2 w' where l: "Lock (coordinator h) locker w = (r2, w')"
      by (cases "Lock (coordinator h) locker w")
    show ?thesis
    proof (cases r2)
      case (Some e)
      from deactivateCandidates_no_lock [OF n [unfolded Inr] l [unfolded Some]] assms n Inr l Some
      show ?thesis by auto
    next
      case None
      let ?s2 = "called (LockCalled locker None) w' (called (NewLockerCalled deactivateCandidatesKey) w s)"
      obtain r3 s3 where b: "deactivateCandidates_body ex h cur ?s2 = (r3, s3)"
        by (cases "deactivateCandidates_body ex h cur ?s2")
      from deactivateCandidates_locked [OF n [unfolded Inr] l [unfolded None] b] assms
      have s': "s' = deferred_Unlock (coordinator h) locker s3" by simp
      from deactivateCandidates_body_events [OF b] obtain evs where
        evs: "trace s3 = trace ?s2 @ evs" "list_all isBodyEvent evs" "ctxDone s3 = ctxDone ?s2"
        by auto
      from deactivateCandidates_body_limit [OF b] evs(1)
      have lim: "list_all (clientLookupsUse (clientDeactivationCandidateLimitPerProject h)) evs"
        by auto
      have "trace s' = trace s @ NewLockerCalled deactivateCandidatesKey # LockCalled locker None # evs
                     @ unlock_events locker (fst (Unlock (coordinator h) locker (world s3)))"
        using s' evs(1) by (simp add: deferred_Unlock_sel)
      moreover have "ctxDone s' = ctxDone s"
        using s' evs(3) by (simp add: deferred_Unlock_sel)
      ultimately show ?thesis using n Inr l None evs(2) lim by blast
    qed
  qed
qed

lemma DeleteDocument_shape:
  assumes "DeleteDocument h cur s = (r, s')"
  shows "ctxDone s' = ctxDone s \<and>
    ((\<exists>err w. NewLocker (coordinator h) documentHardDeletionLockKey (world s) = (Inl err, w) \<and>
        r = Returns (DefaultProjectID (database h), Some err) \<and> world s' = w \<and>
        trace s' = trace s @ [NewLockerCalled documentHardDeletionLockKey]) \<or>
     (\<exists>locker w err w'. NewLocker (coordinator h) documentHardDeletionLockKey (world s) = (Inr locker, w) \<and>
        Lock (coordinator h) locker w = (Some err, w') \<and>
        r = Returns (DefaultProjectID (database h), Some err) \<and> world s' = w' \<and>
        trace s' = trace s @ [NewLockerCalled documentHardDeletionLockKey, LockCalled locker (Some err)]) \<or>
     (\<exists>locker w w' evs u. NewLocker (coordinator h) documentHardDeletionLockKey (world s) = (Inr locker, w) \<and>
        Lock (coordinator h) locker w = (None, w') \<and>
        trace s' = trace s @ NewLockerCalled documentHardDeletionLockKey # LockCalled locker None # evs
                     @ unlock_events locker u \<and>
        list_all isBodyEvent evs \<and>
        list_all (documentLookupsUse (DocumentHardDeletionCandidateLimitPerProject h)
                    (documentHardDeletionGracefulPeriod h)) evs))"
proof -
  obtain r1 w where n: "NewLocker (coordinator h) documentHardDeletionLockKey (world s) = (r1, w)"
    by (cases "NewLocker (coordinator h) documentHardDeletionLockKey (world s)")
  show ?thesis
  proof (cases r1)
    case (Inl e)
    from DeleteDocument_no_locker [OF n [unfolded Inl]] assms n Inl show ?thesis by auto
  next
    case (Inr locker)
    obtain r2 w' where l: "Lock (coordinator h) locker w = (r2, w')"
      by (cases "Lock (coordinator h) locker w")
    show ?thesis
    proof (cases r2)
      case (Some e)
      from DeleteDocument_no_lock [OF n [unfolded Inr] l [unfolded Some]] assms n Inr l Some
      show ?thesis by auto
    next
      case None
      let ?s2 = "called (LockCalled locker None) w' (called (NewLockerCalled documentHardDeletionLockKey) w s)"
      obtain r3 s3 where b: "DeleteDocument_body h cur ?s2 = (r3, s3)"
        by (cases "DeleteDocument_body h cur ?s2")
      from DeleteDocument_locked [OF n [unfolded Inr] l [unfolded None] b] assms
      have s': "s' = deferred_Unlock (coordinator h) locker s3" by simp
      from DeleteDocument_body_events [OF b] obtain evs where
        evs: "trace s3 = trace ?s2 @ evs" "list_all isBodyEvent evs" "ctxDone s3 = ctxDone ?s2"
        by auto
      from DeleteDocument_body_limit [OF b] evs(1)
      have lim: "list_all (documentLookupsUse (DocumentHardDeletionCandidateLimitPerProject h)
                    (documentHardDeletionGracefulPeriod h)) evs"
        by auto
      have "trace s' = trace s @ NewLockerCalled documentHardDeletionLockKey # LockCalled locker None # evs
                     @ unlock_events locker (fst (Unlock (coordinator h) locker (world s3)))"
        using s' evs(1) by (simp add: deferred_Unlock_sel)
      moreover have "ctxDone s' = ctxDone s"
        using s' evs(3) by (simp add: deferred_Unlock_sel)
      ultimately show ?thesis using n Inr l None evs(2) lim by blast
    qed
  qed
qed

lemma sweep_trace_grows:
  "deactivateCandidates ex h cur s = (r, s') \<Longrightarrow> \<exists>evs. trace s' = trace s @ evs"
  "DeleteDocument h cur s = (r, s') \<Longrightarrow> \<exists>evs. trace s' = trace s @ evs"
  using deactivateCandidates_shape [of ex h cur s r s'] DeleteDocument_shape [of h cur s r s']
  by auto

subsection \<open>The next cursor\<close>

text \<open>
  Claim C1. For every call of \<open>FindDeactivateCandidates\<close> or
  \<open>FindDocumentHardDeletionCandidates\<close> that succeeds, the project listing has returned a
  page; if the page is shorter than the fetch size, the next cursor is the sentinel
  \<open>DefaultProjectID\<close>, whatever the projects of the page are; otherwise the page is not
  empty and the next cursor is the \<open>ID\<close> of its last project.
\<close>

theorem next_cursor_of_candidate_finding:
  "(FindDeactivateCandidates h lim fs lastID s = (Returns (topID, cands, None), s') \<longrightarrow>
      (\<exists>projects w.
         FindNextNCyclingProjectInfos (database h) fs lastID (world s) = (Inr projects, w) \<and>
         (if int (length projects) < fs then topID = DefaultProjectID (database h)
          else projects \<noteq> [] \<and> topID = ID (last projects)))) \<and>
   (FindDocumentHardDeletionCandidates h lim' fs' grace lastID' t = (Returns (topID', docs, None), t') \<longrightarrow>
      (\<exists>projects w.
         FindNextNCyclingProjectInfos (database h) fs' lastID' (world t) = (Inr projects, w) \<and>
         (if int (length projects) < fs' then topID' = DefaultProjectID (database h)
          else projects \<noteq> [] \<and> topID' = ID (last projects))))"
proof (intro conjI impI)
  assume "FindDeactivateCandidates h lim fs lastID s = (Returns (topID, cands, None), s')"
  from FindDeactivateCandidates_Returns [OF this] obtain projects w where
    "FindNextNCyclingProjectInfos (database h) fs lastID (world s) = (Inr projects, w)"
    "topID = (if int (length projects) < fs then DefaultProjectID (database h) else ID (last projects))"
    "int (length projects) < fs \<or> projects \<noteq> []"
    by blast
  then show "\<exists>projects w.
         FindNextNCyclingProjectInfos (database h) fs lastID (world s) = (Inr projects, w) \<and>
         (if int (length projects) < fs then topID = DefaultProjectID (database h)
          else projects \<noteq> [] \<and> topID = ID (last projects))"
    by (intro exI [of _ projects] exI [of _ w]) auto
next
  assume "FindDocumentHardDeletionCandidates h lim' fs' grace lastID' t = (Returns (topID', docs, None), t')"
  from FindDocumentHardDeletionCandidates_Returns [OF this] obtain projects w where
    "FindNextNCyclingProjectInfos (database h) fs' lastID' (world t) = (Inr projects, w)"
    "topID' = (if int (length projects) < fs' then DefaultProjectID (database h) else ID (last projects))"
    "int (length projects) < fs' \<or> projects \<noteq> []"
    by blast
  then show "\<exists>projects w.
         FindNextNCyclingProjectInfos (database h) fs' lastID' (world t) = (Inr projects, w) \<and>
         (if int (length projects) < fs' then topID' = DefaultProjectID (database h)
          else projects \<noteq> [] \<and> topID' = ID (last projects))"
    by (intro exI [of _ projects] exI [of _ w]) auto
qed

text \<open>
  In the example, the first page of clients is full and the cursor moves to its last
  project; the page of documents after \<open>p2\<close> is short and the cursor is reset.
\<close>

theorem next_cursor_of_candidate_finding_witness:
  "FindDeactivateCandidates example_h 10 2 ''000000000000000000000000'' example_s0 =
     (Returns (''p2'', [1, 2, 3], None),
      \<lparr>world = [], ctxDone = False,
        trace = [FindNextNCyclingProjectInfosCalled 2 ''000000000000000000000000'',
                 FindDeactivateCandidatesPerProjectCalled \<lparr>ID = ''p1''\<rparr> 10,
                 FindDeactivateCandidatesPerProjectCalled \<lparr>ID = ''p2''\<rparr> 10]\<rparr>) \<and>
   FindDocumentHardDeletionCandidates example_h 10 2 24 ''p2'' example_s0 =
     (Returns (''000000000000000000000000'', [30], None),
      \<lparr>world = [], ctxDone = False,
        trace = [FindNextNCyclingProjectInfosCalled 2 ''p2'',
                 FindDocumentHardDeletionCandidatesPerProjectCalled \<lparr>ID = ''p3''\<rparr> 10 24]\<rparr>) \<and>
   FindNextNCyclingProjectInfos (database example_h) 2 ''000000000000000000000000'' (world example_s0) =
     (Inr [\<lparr>ID = ''p1''\<rparr>, \<lparr>ID = ''p2''\<rparr>], []) \<and>
   ''p2'' = ID (last [\<lparr>ID = ''p1''\<rparr>, \<lparr>ID = ''p2''\<rparr>]) \<and>
   FindNextNCyclingProjectInfos (database example_h) 2 ''p2'' (world example_s0) =
     (Inr [\<lparr>ID = ''p3''\<rparr>], []) \<and>
   ''000000000000000000000000'' = DefaultProjectID (database example_h)"
  using next_cursor_of_candidate_finding
    [where h = example_h and lim = 10 and fs = 2 and lastID = "''000000000000000000000000''"
       and s = example_s0 and topID = "''p2''" and cands = "[1, 2, 3]"
       and lim' = 10 and fs' = 2 and grace = 24 and lastID' = "''p2''" and t = example_s0
       and topID' = "''000000000000000000000000''" and docs = "[30]"]
  by (simp add: example_defs sweep_defs)

subsection \<open>The candidate batch\<close>

lemma list_all_unlock_events:
  "list_all (clientLookupsUse lim) (unlock_events locker u)"
  "list_all (documentLookupsUse lim grace) (unlock_events locker u)"
  by (cases u; simp add: unlock_events_def)+

lemma deactivateCandidates_lookups:
  assumes "deactivateCandidates ex h cur s = (r, s')"
  shows "list_all (clientLookupsUse (clientDeactivationCandidateLimitPerProject h)) (events_since s s')"
  using deactivateCandidates_shape [OF assms]
  by (auto simp add: events_since_def list_all_unlock_events)

lemma DeleteDocument_lookups:
  assumes "DeleteDocument h cur s = (r, s')"
  shows "list_all (documentLookupsUse (DocumentHardDeletionCandidateLimitPerProject h)
                     (documentHardDeletionGracefulPeriod h)) (events_since s s')"
  using DeleteDocument_shape [OF assms]
  by (auto simp add: events_since_def list_all_unlock_events)

text \<open>
  Claim C7. For every call of \<open>FindDeactivateCandidates\<close> or
  \<open>FindDocumentHardDeletionCandidates\<close> that succeeds on a page of projects, the
  per-project lookup is called once for each project of the page, in the order of the page
  and with the limit the function was given; every project has its list of results, which
  may be empty, and the batch is the concatenation of these lists in the order of the
  page. In every run of a sweep the lookups carry the configured limit,
  \<open>clientDeactivationCandidateLimitPerProject\<close> or
  \<open>DocumentHardDeletionCandidateLimitPerProject\<close> with the grace period.
\<close>

theorem candidate_batch_is_concatenation:
  "(FindDeactivateCandidates h lim fs lastID s = (Returns (topID, cands, None), s') \<longrightarrow>
      (\<exists>projects w.
         FindNextNCyclingProjectInfos (database h) fs lastID (world s) = (Inr projects, w) \<and>
         events_since s s' = FindNextNCyclingProjectInfosCalled fs lastID
                               # map (\<lambda>p. FindDeactivateCandidatesPerProjectCalled p lim) projects \<and>
         length (perProjectResults (\<lambda>p. FindDeactivateCandidatesPerProject (database h) p lim) projects w)
           = length projects \<and>
         cands = concat (perProjectResults
                   (\<lambda>p. FindDeactivateCandidatesPerProject (database h) p lim) projects w))) \<and>
   (FindDocumentHardDeletionCandidates h lim' fs' grace lastID' t = (Returns (topID', docs, None), t') \<longrightarrow>
      (\<exists>projects w.
         FindNextNCyclingProjectInfos (database h) fs' lastID' (world t) = (Inr projects, w) \<and>
         events_since t t' = FindNextNCyclingProjectInfosCalled fs' lastID'
                               # map (\<lambda>p. FindDocumentHardDeletionCandidatesPerProjectCalled p lim' grace) projects \<and>
         length (perProjectResults
                   (\<lambda>p. FindDocumentHardDeletionCandidatesPerProject (database h) p lim' grace) projects w)
           = length projects \<and>
         docs = concat (perProjectResults
                   (\<lambda>p. FindDocumentHardDeletionCandidatesPerProject (database h) p lim' grace) projects w))) \<and>
   (deactivateCandidates ex h cur u = (r, u') \<longrightarrow>
      list_all (clientLookupsUse (clientDeactivationCandidateLimitPerProject h)) (events_since u u')) \<and>
   (DeleteDocument h cur' v = (r', v') \<longrightarrow>
      list_all (documentLookupsUse (DocumentHardDeletionCandidateLimitPerProject h)
                  (documentHardDeletionGracefulPeriod h)) (events_since v v'))"
proof (intro conjI impI)
  assume "FindDeactivateCandidates h lim fs lastID s = (Returns (topID, cands, None), s')"
  from FindDeactivateCandidates_Returns [OF this] obtain projects w where
    "FindNextNCyclingProjectInfos (database h) fs lastID (world s) = (Inr projects, w)"
    "trace s' = trace s @ FindNextNCyclingProjectInfosCalled fs lastID
                  # map (\<lambda>p. FindDeactivateCandidatesPerProjectCalled p lim) projects"
    "cands = concat (perProjectResults (\<lambda>p. FindDeactivateCandidatesPerProject (database h) p lim) projects w)"
    "length (perProjectResults (\<lambda>p. FindDeactivateCandidatesPerProject (database h) p lim) projects w)
       = length projects"
    by blast
  then show "\<exists>projects w.
         FindNextNCyclingProjectInfos (database h) fs lastID (world s) = (Inr projects, w) \<and>
         events_since s s' = FindNextNCyclingProjectInfosCalled fs lastID
                               # map (\<lambda>p. FindDeactivateCandidatesPerProjectCalled p lim) projects \<and>
         length (perProjectResults (\<lambda>p. FindDeactivateCandidatesPerProject (database h) p lim) projects w)
           = length projects \<and>
         cands = concat (perProjectResults
                   (\<lambda>p. FindDeactivateCandidatesPerProject (database h) p lim) projects w)"
    by (intro exI [of _ projects] exI [of _ w]) (simp add: events_since_def)
next
  assume "FindDocumentHardDeletionCandidates h lim' fs' grace lastID' t = (Returns (topID', docs, None), t')"
  from FindDocumentHardDeletionCandidates_Returns [OF this] obtain projects w where
    "FindNextNCyclingProjectInfos (database h) fs' lastID' (world t) = (Inr projects, w)"
    "trace t' = trace t @ FindNextNCyclingProjectInfosCalled fs' lastID'
                  # map (\<lambda>p. FindDocumentHardDeletionCandidatesPerProjectCalled p lim' grace) projects"
    "docs = concat (perProjectResults
              (\<lambda>p. FindDocumentHardDeletionCandidatesPerProject (database h) p lim' grace) projects w)"
    "length (perProjectResults
              (\<lambda>p. FindDocumentHardDeletionCandidatesPerProject (database h) p lim' grace) projects w)
       = length projects"
    by blast
  then show "\<exists>projects w.
         FindNextNCyclingProjectInfos (database h) fs' lastID' (world t) = (Inr projects, w) \<and>
         events_since t t' = FindNextNCyclingProjectInfosCalled fs' lastID'
                               # map (\<lambda>p. FindDocumentHardDeletionCandidatesPerProjectCalled p lim' grace) projects \<and>
         length (perProjectResults
                   (\<lambda>p. FindDocumentHardDeletionCandidatesPerProject (database h) p lim' grace) projects w)
           = length projects \<and>
         docs = concat (perProjectResults
                   (\<lambda>p. FindDocumentHardDeletionCandidatesPerProject (database h) p lim' grace) projects w)"
    by (intro exI [of _ projects] exI [of _ w]) (simp add: events_since_def)
next
  assume "deactivateCandidates ex h cur u = (r, u')"
  then show "list_all (clientLookupsUse (clientDeactivationCandidateLimitPerProject h)) (events_since u u')"
    by (rule deactivateCandidates_lookups)
next
  assume "DeleteDocument h cur' v = (r', v')"
  then show "list_all (documentLookupsUse (DocumentHardDeletionCandidateLimitPerProject h)
                  (documentHardDeletionGracefulPeriod h)) (events_since v v')"
    by (rule DeleteDocument_lookups)
qed

text \<open>
  In the example, the second project has no document to delete: its list is empty, and
  the page still has two lists.
\<close>

theorem candidate_batch_is_concatenation_witness:
  "FindDeactivateCandidates example_h 10 2 ''000000000000000000000000'' example_s0 =
     (Returns (''p2'', [1, 2, 3], None),
      \<lparr>world = [], ctxDone = False,
        trace = [FindNextNCyclingProjectInfosCalled 2 ''000000000000000000000000'',
                 FindDeactivateCandidatesPerProjectCalled \<lparr>ID = ''p1''\<rparr> 10,
                 FindDeactivateCandidatesPerProjectCalled \<lparr>ID = ''p2''\<rparr> 10]\<rparr>) \<and>
   perProjectResults (\<lambda>p. FindDeactivateCandidatesPerProject (database example_h) p 10)
     [\<lparr>ID = ''p1''\<rparr>, \<lparr>ID = ''p2''\<rparr>] [] = [[1, 2], [3]] \<and>
   FindDocumentHardDeletionCandidates example_h 10 2 24 ''000000000000000000000000'' example_s0 =
     (Returns (''p2'', [10], None),
      \<lparr>world = [], ctxDone = False,
        trace = [FindNextNCyclingProjectInfosCalled 2 ''000000000000000000000000'',
                 FindDocumentHardDeletionCandidatesPerProjectCalled \<lparr>ID = ''p1''\<rparr> 10 24,
                 FindDocumentHardDeletionCandidatesPerProjectCalled \<lparr>ID = ''p2''\<rparr> 10 24]\<rparr>) \<and>
   perProjectResults (\<lambda>p. FindDocumentHardDeletionCandidatesPerProject (database example_h) p 10 24)
     [\<lparr>ID = ''p1''\<rparr>, \<lparr>ID = ''p2''\<rparr>] [] = [[10], []] \<and>
   events_since example_s0 (snd (deactivateCandidates example_ex example_h ''p2'' example_s0)) =
     [NewLockerCalled ''housekeeping/deactivateCandidates'',
      LockCalled ''housekeeping/deactivateCandidates'' None,
      FindNextNCyclingProjectInfosCalled 2 ''p2'',
      FindDeactivateCandidatesPerProjectCalled \<lparr>ID = ''p3''\<rparr> 10,
      DeactivateCalled 4 None,
      DeactivateCalled 5 None,
      LogInfof 2 2,
      UnlockCalled ''housekeeping/deactivateCandidates'' None] \<and>
   events_since example_s0 (snd (DeleteDocument example_h ''p2'' example_s0)) =
     [NewLockerCalled ''housekeeping/DocumentHardDeletionLock'',
      LockCalled ''housekeeping/DocumentHardDeletionLock'' None,
      FindNextNCyclingProjectInfosCalled 2 ''p2'',
      FindDocumentHardDeletionCandidatesPerProjectCalled \<lparr>ID = ''p3''\<rparr> 10 24,
      DeleteDocumentCalled [30],
      LogInfof 1 1,
      UnlockCalled ''housekeeping/DocumentHardDeletionLock'' None]"
  using candidate_batch_is_concatenation
    [where h = example_h and lim = 10 and fs = 2 and lastID = "''000000000000000000000000''"
       and s = example_s0 and topID = "''p2''" and cands = "[1, 2, 3]"
       and lim' = 10 and fs' = 2 and grace = 24 and lastID' = "''000000000000000000000000''"
       and t = example_s0 and topID' = "''p2''" and docs = "[10]"
       and ex = example_ex and cur = "''p2''" and u = example_s0
       and r = "fst (deactivateCandidates example_ex example_h ''p2'' example_s0)"
       and u' = "snd (deactivateCandidates example_ex example_h ''p2'' example_s0)"
       and cur' = "''p2''" and v = example_s0
       and r' = "fst (DeleteDocument example_h ''p2'' example_s0)"
       and v' = "snd (DeleteDocument example_h ''p2'' example_s0)"]
  by (simp add: example_defs sweep_defs events_since_def)

subsection \<open>Nothing is read or changed without the lock\<close>

lemma store_event_position:
  assumes "\<not> isStoreEvent a" "\<not> isStoreEvent b" "isStoreEvent ((a # b # evs) ! i)"
  shows "1 < i"
proof (cases i)
  case 0
  with assms show ?thesis by simp
next
  case (Suc j)
  with assms show ?thesis by (cases j) simp_all
qed

lemma deactivateCandidates_store_events:
  assumes "deactivateCandidates ex h cur s = (r, s')"
    and "i < length (events_since s s')" and "isStoreEvent (events_since s s' ! i)"
  shows "1 < i \<and> (\<exists>locker. take 2 (events_since s s') =
           [NewLockerCalled deactivateCandidatesKey, LockCalled locker None])"
proof -
  from deactivateCandidates_shape [OF assms(1)]
  consider (no_locker) "events_since s s' = [NewLockerCalled deactivateCandidatesKey]"
    | (no_lock) locker err where
        "events_since s s' = [NewLockerCalled deactivateCandidatesKey, LockCalled locker (Some err)]"
    | (locked) locker rest where
        "events_since s s' = NewLockerCalled deactivateCandidatesKey # LockCalled locker None # rest"
    by (auto simp add: events_since_def)
  then show ?thesis
  proof cases
    case no_locker
    with assms(2,3) show ?thesis by simp
  next
    case no_lock
    with assms(2,3) show ?thesis by (cases i) simp_all
  next
    case locked
    with assms(3) store_event_position [of "NewLockerCalled deactivateCandidatesKey" "LockCalled locker None" rest i]
    show ?thesis by simp
  qed
qed

lemma DeleteDocument_store_events:
  assumes "DeleteDocument h cur s = (r, s')"
    and "i < length (events_since s s')" and "isStoreEvent (events_since s s' ! i)"
  shows "1 < i \<and> (\<exists>locker. take 2 (events_since s s') =
           [NewLockerCalled documentHardDeletionLockKey, LockCalled locker None])"
proof -
  from DeleteDocument_shape [OF assms(1)]
  consider (no_locker) "events_since s s' = [NewLockerCalled documentHardDeletionLockKey]"
    | (no_lock) locker err where
        "events_since s s' = [NewLockerCalled documentHardDeletionLockKey, LockCalled locker (Some err)]"
    | (locked) locker rest where
        "events_since s s' = NewLockerCalled documentHardDeletionLockKey # LockCalled locker None # rest"
    by (auto simp add: events_since_def)
  then show ?thesis
  proof cases
    case no_locker
    with assms(2,3) show ?thesis by simp
  next
    case no_lock
    with assms(2,3) show ?thesis by (cases i) simp_all
  next
    case locked
    with assms(3) store_event_position [of "NewLockerCalled documentHardDeletionLockKey" "LockCalled locker None" rest i]
    show ?thesis by simp
  qed
qed

text \<open>
  Claim C5. When the locker cannot be created, or the lock cannot be taken, a sweep
  returns that error after the calls to the lock service alone: the trace has no other
  event and the world is the one the lock service left. In every run of a sweep, a call
  that reads or changes the store comes after the two calls that created the locker for
  the key of the sweep and took the lock with success.
\<close>

theorem no_store_access_without_lock:
  "(NewLocker (coordinator h1) deactivateCandidatesKey (world s1) = (Inl err1, w1) \<longrightarrow>
      deactivateCandidates ex h1 cur s1 =
        (Returns (DefaultProjectID (database h1), Some err1),
         s1\<lparr>world := w1, trace := trace s1 @ [NewLockerCalled deactivateCandidatesKey]\<rparr>)) \<and>
   (NewLocker (coordinator h2) deactivateCandidatesKey (world s2) = (Inr locker2, w2) \<and>
    Lock (coordinator h2) locker2 w2 = (Some err2, w2') \<longrightarrow>
      deactivateCandidates ex h2 cur s2 =
        (Returns (DefaultProjectID (database h2), Some err2),
         s2\<lparr>world := w2', trace := trace s2 @ [NewLockerCalled deactivateCandidatesKey,
                                               LockCalled locker2 (Some err2)]\<rparr>)) \<and>
   (deactivateCandidates ex h3 cur s3 = (r3, s3') \<longrightarrow>
      (\<forall>i < length (events_since s3 s3'). isStoreEvent (events_since s3 s3' ! i) \<longrightarrow>
         1 < i \<and> (\<exists>locker. take 2 (events_since s3 s3') =
                    [NewLockerCalled deactivateCandidatesKey, LockCalled locker None]))) \<and>
   (NewLocker (coordinator h1) documentHardDeletionLockKey (world s1) = (Inl err4, w4) \<longrightarrow>
      DeleteDocument h1 cur s1 =
        (Returns (DefaultProjectID (database h1), Some err4),
         s1\<lparr>world := w4, trace := trace s1 @ [NewLockerCalled documentHardDeletionLockKey]\<rparr>)) \<and>
   (NewLocker (coordinator h2) documentHardDeletionLockKey (world s2) = (Inr locker5, w5) \<and>
    Lock (coordinator h2) locker5 w5 = (Some err5, w5') \<longrightarrow>
      DeleteDocument h2 cur s2 =
        (Returns (DefaultProjectID (database h2), Some err5),
         s2\<lparr>world := w5', trace := trace s2 @ [NewLockerCalled documentHardDeletionLockKey,
                                               LockCalled locker5 (Some err5)]\<rparr>)) \<and>
   (DeleteDocument h3 cur s3 = (r6, s6') \<longrightarrow>
      (\<forall>i < length (events_since s3 s6'). isStoreEvent (events_since s3 s6' ! i) \<longrightarrow>
         1 < i \<and> (\<exists>locker. take 2 (events_since s3 s6') =
                    [NewLockerCalled documentHardDeletionLockKey, LockCalled locker None])))"
proof -
  have a: "NewLocker (coordinator h1) deactivateCandidatesKey (world s1) = (Inl err1, w1) \<longrightarrow>
      deactivateCandidates ex h1 cur s1 =
        (Returns (DefaultProjectID (database h1), Some err1),
         s1\<lparr>world := w1, trace := trace s1 @ [NewLockerCalled deactivateCandidatesKey]\<rparr>)"
    using deactivateCandidates_no_locker [of h1 s1 err1 w1 ex cur] by (simp add: called_def)
  have b: "NewLocker (coordinator h2) deactivateCandidatesKey (world s2) = (Inr locker2, w2) \<and>
    Lock (coordinator h2) locker2 w2 = (Some err2, w2') \<longrightarrow>
      deactivateCandidates ex h2 cur s2 =
        (Returns (DefaultProjectID (database h2), Some err2),
         s2\<lparr>world := w2', trace := trace s2 @ [NewLockerCalled deactivateCandidatesKey,
                                               LockCalled locker2 (Some err2)]\<rparr>)"
    using deactivateCandidates_no_lock [of h2 s2 locker2 w2 err2 w2' ex cur] by (simp add: called_def)
  have c: "deactivateCandidates ex h3 cur s3 = (r3, s3') \<longrightarrow>
      (\<forall>i < length (events_since s3 s3'). isStoreEvent (events_since s3 s3' ! i) \<longrightarrow>
         1 < i \<and> (\<exists>locker. take 2 (events_since s3 s3') =
                    [NewLockerCalled deactivateCandidatesKey, LockCalled locker None]))"
    using deactivateCandidates_store_events [of ex h3 cur s3 r3 s3'] by blast
  have d: "NewLocker (coordinator h1) documentHardDeletionLockKey (world s1) = (Inl err4, w4) \<longrightarrow>
      DeleteDocument h1 cur s1 =
        (Returns (DefaultProjectID (database h1), Some err4),
         s1\<lparr>world := w4, trace := trace s1 @ [NewLockerCalled documentHardDeletionLockKey]\<rparr>)"
    using DeleteDocument_no_locker [of h1 s1 err4 w4 cur] by (simp add: called_def)
  have e: "NewLocker (coordinator h2) documentHardDeletionLockKey (world s2) = (Inr locker5, w5) \<and>
    Lock (coordinator h2) locker5 w5 = (Some err5, w5') \<longrightarrow>
      DeleteDocument h2 cur s2 =
        (Returns (DefaultProjectID (database h2), Some err5),
         s2\<lparr>world := w5', trace := trace s2 @ [NewLockerCalled documentHardDeletionLockKey,
                                               LockCalled locker5 (Some err5)]\<rparr>)"
    using DeleteDocument_no_lock [of h2 s2 locker5 w5 err5 w5' cur] by (simp add: called_def)
  have f: "DeleteDocument h3 cur s3 = (r6, s6') \<longrightarrow>
      (\<forall>i < length (events_since s3 s6'). isStoreEvent (events_since s3 s6' ! i) \<longrightarrow>
         1 < i \<and> (\<exists>locker. take 2 (events_since s3 s6') =
                    [NewLockerCalled documentHardDeletionLockKey, LockCalled locker None]))"
    using DeleteDocument_store_events [of h3 cur s3 r6 s6'] by blast
  show ?thesis by (intro conjI a b c d e f)
qed

text \<open>
  In the example, with a lock service that cannot be reached the sweeps stop after
  \<open>NewLocker\<close>, with a lock that is held they stop after \<open>Lock\<close>, and in a full sweep
  the first store call is the third event.
\<close>

theorem no_store_access_without_lock_witness:
  "deactivateCandidates example_ex (example_h\<lparr>coordinator := example_coordinator_down\<rparr>) ''p1'' example_s0 =
     (Returns (''000000000000000000000000'', Some ''unreachable''),
      \<lparr>world = [], ctxDone = False, trace = [NewLockerCalled ''housekeeping/deactivateCandidates'']\<rparr>) \<and>
   deactivateCandidates example_ex (example_h\<lparr>coordinator := example_coordinator_held\<rparr>) ''p1'' example_s0 =
     (Returns (''000000000000000000000000'', Some ''held''),
      \<lparr>world = [], ctxDone = False,
        trace = [NewLockerCalled ''housekeeping/deactivateCandidates'',
                 LockCalled ''housekeeping/deactivateCandidates'' (Some ''held'')]\<rparr>) \<and>
   DeleteDocument (example_h\<lparr>coordinator := example_coordinator_down\<rparr>) ''p1'' example_s0 =
     (Returns (''000000000000000000000000'', Some ''unreachable''),
      \<lparr>world = [], ctxDone = False, trace = [NewLockerCalled ''housekeeping/DocumentHardDeletionLock'']\<rparr>) \<and>
   DeleteDocument (example_h\<lparr>coordinator := example_coordinator_held\<rparr>) ''p1'' example_s0 =
     (Returns (''000000000000000000000000'', Some ''held''),
      \<lparr>world = [], ctxDone = False,
        trace = [NewLockerCalled ''housekeeping/DocumentHardDeletionLock'',
                 LockCalled ''housekeeping/DocumentHardDeletionLock'' (Some ''held'')]\<rparr>) \<and>
   events_since example_s0 (snd (deactivateCandidates example_ex example_h ''p1'' example_s0)) ! 2 =
     FindNextNCyclingProjectInfosCalled 2 ''p1'' \<and>
   take 2 (events_since example_s0 (snd (deactivateCandidates example_ex example_h ''p1'' example_s0))) =
     [NewLockerCalled ''housekeeping/deactivateCandidates'',
      LockCalled ''housekeeping/deactivateCandidates'' None] \<and>
   events_since example_s0 (snd (DeleteDocument example_h ''p1'' example_s0)) ! 2 =
     FindNextNCyclingProjectInfosCalled 2 ''p1'' \<and>
   take 2 (events_since example_s0 (snd (DeleteDocument example_h ''p1'' example_s0))) =
     [NewLockerCalled ''housekeeping/DocumentHardDeletionLock'',
      LockCalled ''housekeeping/DocumentHardDeletionLock'' None]"
  using no_store_access_without_lock
    [where ex = example_ex and cur = "''p1''"
       and ?h1.0 = "example_h\<lparr>coordinator := example_coordinator_down\<rparr>" and ?s1.0 = example_s0
       and ?err1.0 = "''unreachable''" and ?w1.0 = "[]" and ?err4.0 = "''unreachable''" and ?w4.0 = "[]"
       and ?h2.0 = "example_h\<lparr>coordinator := example_coordinator_held\<rparr>" and ?s2.0 = example_s0
       and ?locker2.0 = "''housekeeping/deactivateCandidates''" and ?w2.0 = "[]"
       and ?err2.0 = "''held''" and ?w2' = "[]"
       and ?locker5.0 = "''housekeeping/DocumentHardDeletionLock''" and ?w5.0 = "[]"
       and ?err5.0 = "''held''" and ?w5' = "[]"
       and ?h3.0 = example_h and ?s3.0 = example_s0
       and ?r3.0 = "fst (deactivateCandidates example_ex example_h ''p1'' example_s0)"
       and ?s3' = "snd (deactivateCandidates example_ex example_h ''p1'' example_s0)"
       and ?r6.0 = "fst (DeleteDocument example_h ''p1'' example_s0)"
       and ?s6' = "snd (DeleteDocument example_h ''p1'' example_s0)"]
  by (simp add: example_defs example_coordinator_down_def example_coordinator_held_def sweep_defs events_since_def)

subsection \<open>The lock is released once\<close>

lemma filter_isUnlock_body: "list_all isBodyEvent evs \<Longrightarrow> filter isUnlock evs = []"
proof (induction evs)
  case Nil
  then show ?case by simp
next
  case (Cons ev evs)
  then show ?case by (cases ev) simp_all
qed

lemma filter_isUnlock_unlock_events:
  "filter isUnlock (unlock_events locker u) = [UnlockCalled locker u]"
  by (cases u) (simp_all add: unlock_events_def)

lemma deactivateCandidates_Unlock_irrelevant:
  "fst (deactivateCandidates ex (h\<lparr>coordinator := (coordinator h)\<lparr>Unlock := U\<rparr>\<rparr>) cur s) =
     fst (deactivateCandidates ex h cur s)"
  by (simp add: deactivateCandidates_def call_NewLocker_def call_Lock_def
        deactivateCandidates_body_coordinator split: prod.splits sum.splits option.splits)

lemma DeleteDocument_Unlock_irrelevant:
  "fst (DeleteDocument (h\<lparr>coordinator := (coordinator h)\<lparr>Unlock := U\<rparr>\<rparr>) cur s) =
     fst (DeleteDocument h cur s)"
  by (simp add: DeleteDocument_def call_NewLocker_def call_Lock_def
        DeleteDocument_body_coordinator split: prod.splits sum.splits option.splits)

lemma deactivateCandidates_released:
  assumes n: "NewLocker (coordinator h) deactivateCandidatesKey (world s) = (Inr locker, w)"
    and l: "Lock (coordinator h) locker w = (None, w')"
    and b: "deactivateCandidates_body ex h cur
              (called (LockCalled locker None) w' (called (NewLockerCalled deactivateCandidatesKey) w s)) = (r, s3)"
  shows "\<exists>evs. list_all isBodyEvent evs \<and>
           deactivateCandidates ex h cur s =
             (r, s3\<lparr>world := snd (Unlock (coordinator h) locker (world s3)),
                    trace := trace s @ NewLockerCalled deactivateCandidatesKey # LockCalled locker None # evs
                      @ unlock_events locker (fst (Unlock (coordinator h) locker (world s3)))\<rparr>)"
proof -
  from deactivateCandidates_body_events [OF b] obtain evs where
    evs: "trace s3 = trace s @ NewLockerCalled deactivateCandidatesKey # LockCalled locker None # evs"
      "list_all isBodyEvent evs"
    by auto
  have "deferred_Unlock (coordinator h) locker s3 =
          s3\<lparr>world := snd (Unlock (coordinator h) locker (world s3)),
             trace := trace s3 @ unlock_events locker (fst (Unlock (coordinator h) locker (world s3)))\<rparr>"
    by (auto simp add: deferred_Unlock_def call_Unlock_def unlock_events_def called_def logged_def
             split: prod.splits option.splits)
  with deactivateCandidates_locked [OF n l b] evs show ?thesis by auto
qed

lemma DeleteDocument_released:
  assumes n: "NewLocker (coordinator h) documentHardDeletionLockKey (world s) = (Inr locker, w)"
    and l: "Lock (coordinator h) locker w = (None, w')"
    and b: "DeleteDocument_body h cur
              (called (LockCalled locker None) w' (called (NewLockerCalled documentHardDeletionLockKey) w s)) = (r, s3)"
  shows "\<exists>evs. list_all isBodyEvent evs \<and>
           DeleteDocument h cur s =
             (r, s3\<lparr>world := snd (Unlock (coordinator h) locker (world s3)),
                    trace := trace s @ NewLockerCalled documentHardDeletionLockKey # LockCalled locker None # evs
                      @ unlock_events locker (fst (Unlock (coordinator h) locker (world s3)))\<rparr>)"
proof -
  from DeleteDocument_body_events [OF b] obtain evs where
    evs: "trace s3 = trace s @ NewLockerCalled documentHardDeletionLockKey # LockCalled locker None # evs"
      "list_all isBodyEvent evs"
    by auto
  have "deferred_Unlock (coordinator h) locker s3 =
          s3\<lparr>world := snd (Unlock (coordinator h) locker (world s3)),
             trace := trace s3 @ unlock_events locker (fst (Unlock (coordinator h) locker (world s3)))\<rparr>"
    by (auto simp add: deferred_Unlock_def call_Unlock_def unlock_events_def called_def logged_def
             split: prod.splits option.splits)
  with DeleteDocument_locked [OF n l b] evs show ?thesis by auto
qed

lemma deferred_Unlock_eq:
  "deferred_Unlock co locker s =
     s\<lparr>world := snd (Unlock co locker (world s)),
       trace := trace s @ unlock_events locker (fst (Unlock co locker (world s)))\<rparr>"
  by (auto simp add: deferred_Unlock_def call_Unlock_def unlock_events_def called_def logged_def
           split: prod.splits option.splits)

lemma deactivateCandidates_unlock_once:
  assumes n: "NewLocker (coordinator h) deactivateCandidatesKey (world s) = (Inr locker, w)"
    and l: "Lock (coordinator h) locker w = (None, w')"
  shows "\<exists>r s3 evs u.
           deactivateCandidates_body ex h cur
              (called (LockCalled locker None) w' (called (NewLockerCalled deactivateCandidatesKey) w s)) = (r, s3) \<and>
           u = fst (Unlock (coordinator h) locker (world s3)) \<and>
           fst (deactivateCandidates ex h cur s) = r \<and>
           snd (deactivateCandidates ex h cur s) =
             s3\<lparr>world := snd (Unlock (coordinator h) locker (world s3)),
                trace := trace s3 @ unlock_events locker u\<rparr> \<and>
           events_since s (snd (deactivateCandidates ex h cur s)) =
             NewLockerCalled deactivateCandidatesKey # LockCalled locker None # evs @ unlock_events locker u \<and>
           list_all isBodyEvent evs \<and>
           filter isUnlock (events_since s (snd (deactivateCandidates ex h cur s))) = [UnlockCalled locker u]"
proof -
  let ?s2 = "called (LockCalled locker None) w' (called (NewLockerCalled deactivateCandidatesKey) w s)"
  obtain r s3 where b: "deactivateCandidates_body ex h cur ?s2 = (r, s3)"
    by (cases "deactivateCandidates_body ex h cur ?s2")
  let ?u = "fst (Unlock (coordinator h) locker (world s3))"
  from deactivateCandidates_body_events [OF b] obtain evs where
    evs: "trace s3 = trace s @ NewLockerCalled deactivateCandidatesKey # LockCalled locker None # evs"
      "list_all isBodyEvent evs"
    by auto
  from deactivateCandidates_locked [OF n l b]
  have run: "deactivateCandidates ex h cur s =
             (r, s3\<lparr>world := snd (Unlock (coordinator h) locker (world s3)),
                    trace := trace s3 @ unlock_events locker ?u\<rparr>)"
    by (simp add: deferred_Unlock_eq)
  have "filter isUnlock (NewLockerCalled deactivateCandidatesKey # LockCalled locker None # evs
          @ unlock_events locker ?u) = [UnlockCalled locker ?u]"
    using evs(2) by (simp add: filter_isUnlock_body filter_isUnlock_unlock_events)
  with b evs run show ?thesis by (simp add: events_since_def)
qed

lemma DeleteDocument_unlock_once:
  assumes n: "NewLocker (coordinator h) documentHardDeletionLockKey (world s) = (Inr locker, w)"
    and l: "Lock (coordinator h) locker w = (None, w')"
  shows "\<exists>r s3 evs u.
           DeleteDocument_body h cur
              (called (LockCalled locker None) w' (called (NewLockerCalled documentHardDeletionLockKey) w s)) = (r, s3) \<and>
           u = fst (Unlock (coordinator h) locker (world s3)) \<and>
           fst (DeleteDocument h cur s) = r \<and>
           snd (DeleteDocument h cur s) =
             s3\<lparr>world := snd (Unlock (coordinator h) locker (world s3)),
                trace := trace s3 @ unlock_events locker u\<rparr> \<and>
           events_since s (snd (DeleteDocument h cur s)) =
             NewLockerCalled documentHardDeletionLockKey # LockCalled locker None # evs @ unlock_events locker u \<and>
           list_all isBodyEvent evs \<and>
           filter isUnlock (events_since s (snd (DeleteDocument h cur s))) = [UnlockCalled locker u]"
proof -
  let ?s2 = "called (LockCalled locker None) w' (called (NewLockerCalled documentHardDeletionLockKey) w s)"
  obtain r s3 where b: "DeleteDocument_body h cur ?s2 = (r, s3)"
    by (cases "DeleteDocument_body h cur ?s2")
  let ?u = "fst (Unlock (coordinator h) locker (world s3))"
  from DeleteDocument_body_events [OF b] obtain evs where
    evs: "trace s3 = trace s @ NewLockerCalled documentHardDeletionLockKey # LockCalled locker None # evs"
      "list_all isBodyEvent evs"
    by auto
  from DeleteDocument_locked [OF n l b]
  have run: "DeleteDocument h cur s =
             (r, s3\<lparr>world := snd (Unlock (coordinator h) locker (world s3)),
                    trace := trace s3 @ unlock_events locker ?u\<rparr>)"
    by (simp add: deferred_Unlock_eq)
  have "filter isUnlock (NewLockerCalled documentHardDeletionLockKey # LockCalled locker None # evs
          @ unlock_events locker ?u) = [UnlockCalled locker ?u]"
    using evs(2) by (simp add: filter_isUnlock_body filter_isUnlock_unlock_events)
  with b evs run show ?thesis by (simp add: events_since_def)
qed

text \<open>
  Claim C6. When a sweep has taken its lock, it unlocks exactly once, on the locker it
  locked, after everything its body has done, whether the body returns a cursor, returns
  an error of a lookup or of an action, or panics. The unlock is run on the world the body
  left, and the sweep ends in the state the body left with the world the unlock gave back
  and the events of the unlock added, so the release reaches the lock service. What the
  sweep returns is what its body returned: an error of the unlock is only logged after the
  unlock, and with any other unlock function the sweep returns the same cursor and the
  same error.
\<close>

theorem lock_released_exactly_once:
  "(NewLocker (coordinator h) deactivateCandidatesKey (world s) = (Inr locker, w) \<and>
    Lock (coordinator h) locker w = (None, w') \<longrightarrow>
      (\<exists>r s3 evs u.
         deactivateCandidates_body ex h cur
           (called (LockCalled locker None) w' (called (NewLockerCalled deactivateCandidatesKey) w s)) = (r, s3) \<and>
         u = fst (Unlock (coordinator h) locker (world s3)) \<and>
         fst (deactivateCandidates ex h cur s) = r \<and>
         snd (deactivateCandidates ex h cur s) =
           s3\<lparr>world := snd (Unlock (coordinator h) locker (world s3)),
              trace := trace s3 @ unlock_events locker u\<rparr> \<and>
         events_since s (snd (deactivateCandidates ex h cur s)) =
           NewLockerCalled deactivateCandidatesKey # LockCalled locker None # evs @ unlock_events locker u \<and>
         list_all isBodyEvent evs \<and>
         filter isUnlock (events_since s (snd (deactivateCandidates ex h cur s))) = [UnlockCalled locker u]) \<and>
      (\<forall>U. fst (deactivateCandidates ex (h\<lparr>coordinator := (coordinator h)\<lparr>Unlock := U\<rparr>\<rparr>) cur s) =
             fst (deactivateCandidates ex h cur s))) \<and>
   (NewLocker (coordinator h) documentHardDeletionLockKey (world s) = (Inr locker2, w2) \<and>
    Lock (coordinator h) locker2 w2 = (None, w2') \<longrightarrow>
      (\<exists>r s3 evs u.
         DeleteDocument_body h cur
           (called (LockCalled locker2 None) w2' (called (NewLockerCalled documentHardDeletionLockKey) w2 s)) = (r, s3) \<and>
         u = fst (Unlock (coordinator h) locker2 (world s3)) \<and>
         fst (DeleteDocument h cur s) = r \<and>
         snd (DeleteDocument h cur s) =
           s3\<lparr>world := snd (Unlock (coordinator h) locker2 (world s3)),
              trace := trace s3 @ unlock_events locker2 u\<rparr> \<and>
         events_since s (snd (DeleteDocument h cur s)) =
           NewLockerCalled documentHardDeletionLockKey # LockCalled locker2 None # evs @ unlock_events locker2 u \<and>
         list_all isBodyEvent evs \<and>
         filter isUnlock (events_since s (snd (DeleteDocument h cur s))) = [UnlockCalled locker2 u]) \<and>
      (\<forall>U. fst (DeleteDocument (h\<lparr>coordinator := (coordinator h)\<lparr>Unlock := U\<rparr>\<rparr>) cur s) =
             fst (DeleteDocument h cur s)))"
  using deactivateCandidates_unlock_once [of h s locker w w' ex cur]
    DeleteDocument_unlock_once [of h s locker2 w2 w2' cur]
    deactivateCandidates_Unlock_irrelevant [where ex = ex and h = h and cur = cur and s = s]
    DeleteDocument_Unlock_irrelevant [where h = h and cur = cur and s = s]
  by blast

text \<open>
  In the example the unlock fails. The sweep of the clients still returns the error of
  the second deactivation, the sweep of the documents still succeeds with the cursor
  \<open>p2\<close>, each trace has one unlock, followed by the line that logs its error, and
  each final world ends with the 0 the lock service recorded for the unlock.
\<close>

theorem lock_released_exactly_once_witness:
  "deactivateCandidates example_ex (example_h\<lparr>coordinator := example_coordinator_stuck\<rparr>)
       ''000000000000000000000000'' example_s0 =
     (Returns (''000000000000000000000000'', Some ''deactivate failed''),
      \<lparr>world = [1, 0], ctxDone = False,
        trace = [NewLockerCalled ''housekeeping/deactivateCandidates'',
                 LockCalled ''housekeeping/deactivateCandidates'' None,
                 FindNextNCyclingProjectInfosCalled 2 ''000000000000000000000000'',
                 FindDeactivateCandidatesPerProjectCalled \<lparr>ID = ''p1''\<rparr> 10,
                 FindDeactivateCandidatesPerProjectCalled \<lparr>ID = ''p2''\<rparr> 10,
                 DeactivateCalled 1 None,
                 DeactivateCalled 2 (Some ''deactivate failed''),
                 UnlockCalled ''housekeeping/deactivateCandidates'' (Some ''lost lease''),
                 LogError ''lost lease'']\<rparr>) \<and>
   filter isUnlock (events_since example_s0
       (snd (deactivateCandidates example_ex (example_h\<lparr>coordinator := example_coordinator_stuck\<rparr>)
               ''000000000000000000000000'' example_s0))) =
     [UnlockCalled ''housekeeping/deactivateCandidates'' (Some ''lost lease'')] \<and>
   fst (deactivateCandidates example_ex example_h ''000000000000000000000000'' example_s0) =
     Returns (''000000000000000000000000'', Some ''deactivate failed'') \<and>
   DeleteDocument (example_h\<lparr>coordinator := example_coordinator_stuck\<rparr>)
       ''000000000000000000000000'' example_s0 =
     (Returns (''p2'', None),
      \<lparr>world = [10, 0], ctxDone = False,
        trace = [NewLockerCalled ''housekeeping/DocumentHardDeletionLock'',
                 LockCalled ''housekeeping/DocumentHardDeletionLock'' None,
                 FindNextNCyclingProjectInfosCalled 2 ''000000000000000000000000'',
                 FindDocumentHardDeletionCandidatesPerProjectCalled \<lparr>ID = ''p1''\<rparr> 10 24,
                 FindDocumentHardDeletionCandidatesPerProjectCalled \<lparr>ID = ''p2''\<rparr> 10 24,
                 DeleteDocumentCalled [10],
                 LogInfof 1 1,
                 UnlockCalled ''housekeeping/DocumentHardDeletionLock'' (Some ''lost lease''),
                 LogError ''lost lease'']\<rparr>) \<and>
   filter isUnlock (events_since example_s0
       (snd (DeleteDocument (example_h\<lparr>coordinator := example_coordinator_stuck\<rparr>)
               ''000000000000000000000000'' example_s0))) =
     [UnlockCalled ''housekeeping/DocumentHardDeletionLock'' (Some ''lost lease'')] \<and>
   fst (DeleteDocument example_h ''000000000000000000000000'' example_s0) = Returns (''p2'', None)"
  using lock_released_exactly_once
    [where ex = example_ex and h = "example_h\<lparr>coordinator := example_coordinator_stuck\<rparr>"
       and cur = "''000000000000000000000000''" and s = example_s0
       and locker = "''housekeeping/deactivateCandidates''" and w = "[]" and w' = "[]"
       and ?locker2.0 = "''housekeeping/DocumentHardDeletionLock''" and ?w2.0 = "[]" and ?w2' = "[]"]
  by (simp add: example_defs example_coordinator_stuck_def sweep_defs events_since_def unlock_events_def)

subsection \<open>Deactivating the batch\<close>

lemma deactivateCandidates_range_fails:
  assumes "allDeactivated ex pre (world s)"
    and "Deactivate ex (RefKey ex c) (deactivatedWorld ex pre (world s)) = (Inl err, wfail)"
  shows "deactivateCandidates_range ex (pre @ c # post) n s =
           (Inl err,
            s\<lparr>world := wfail,
              trace := trace s @ map (\<lambda>c. DeactivateCalled (RefKey ex c) None) pre
                         @ [DeactivateCalled (RefKey ex c) (Some err)]\<rparr>)"
  using assms
  by (simp add: deactivateCandidates_range_append deactivateCandidates_range_all [OF assms(1)]
        call_Deactivate_def called_def)

lemma deactivateCandidates_aborts:
  assumes n: "NewLocker (coordinator h) deactivateCandidatesKey (world s) = (Inr locker, w)"
    and l: "Lock (coordinator h) locker w = (None, w')"
    and f: "FindDeactivateCandidates h (clientDeactivationCandidateLimitPerProject h) (projectFetchSize h) cur
              (called (LockCalled locker None) w' (called (NewLockerCalled deactivateCandidatesKey) w s))
            = (Returns (lastProjectID, pre @ c # post, None), s3)"
    and pre: "allDeactivated ex pre (world s3)"
    and c: "Deactivate ex (RefKey ex c) (deactivatedWorld ex pre (world s3)) = (Inl err, wfail)"
  shows "deactivateCandidates ex h cur s =
           (Returns (DefaultProjectID (database h), Some err),
            s3\<lparr>world := snd (Unlock (coordinator h) locker wfail),
               trace := trace s3 @ map (\<lambda>c. DeactivateCalled (RefKey ex c) None) pre
                          @ DeactivateCalled (RefKey ex c) (Some err)
                          # unlock_events locker (fst (Unlock (coordinator h) locker wfail))\<rparr>)"
proof -
  let ?s2 = "called (LockCalled locker None) w' (called (NewLockerCalled deactivateCandidatesKey) w s)"
  let ?s4 = "s3\<lparr>world := wfail,
              trace := trace s3 @ map (\<lambda>c. DeactivateCalled (RefKey ex c) None) pre
                         @ [DeactivateCalled (RefKey ex c) (Some err)]\<rparr>"
  have b: "deactivateCandidates_body ex h cur ?s2 = (Returns (DefaultProjectID (database h), Some err), ?s4)"
    by (simp add: deactivateCandidates_body_def f deactivateCandidates_range_fails [OF pre c])
  have "deferred_Unlock (coordinator h) locker ?s4 =
          s3\<lparr>world := snd (Unlock (coordinator h) locker wfail),
             trace := trace s3 @ map (\<lambda>c. DeactivateCalled (RefKey ex c) None) pre
                        @ DeactivateCalled (RefKey ex c) (Some err)
                        # unlock_events locker (fst (Unlock (coordinator h) locker wfail))\<rparr>"
    by (auto simp add: deferred_Unlock_def call_Unlock_def unlock_events_def called_def logged_def
             split: prod.splits option.splits)
  with deactivateCandidates_locked [OF n l b] show ?thesis by simp
qed

lemma deactivateCandidates_succeeds:
  assumes "deactivateCandidates ex h cur s = (Returns (c, None), s')"
  shows "\<exists>locker w w' candidates s3 u.
           NewLocker (coordinator h) deactivateCandidatesKey (world s) = (Inr locker, w) \<and>
           Lock (coordinator h) locker w = (None, w') \<and>
           FindDeactivateCandidates h (clientDeactivationCandidateLimitPerProject h) (projectFetchSize h) cur
              (called (LockCalled locker None) w' (called (NewLockerCalled deactivateCandidatesKey) w s))
             = (Returns (c, candidates, None), s3) \<and>
           allDeactivated ex candidates (world s3) \<and>
           fst (deactivateCandidates_range ex candidates 0 s3) = Inr (int (length candidates)) \<and>
           u = fst (Unlock (coordinator h) locker (deactivatedWorld ex candidates (world s3))) \<and>
           world s' = snd (Unlock (coordinator h) locker (deactivatedWorld ex candidates (world s3))) \<and>
           events_since s3 s' =
             map (\<lambda>c. DeactivateCalled (RefKey ex c) None) candidates
             @ (if 0 < length candidates
                then [LogInfof (length candidates) (int (length candidates))] else [])
             @ unlock_events locker u"
proof -
  obtain r1 w where n: "NewLocker (coordinator h) deactivateCandidatesKey (world s) = (r1, w)"
    by (cases "NewLocker (coordinator h) deactivateCandidatesKey (world s)")
  from assms n obtain locker where r1: "r1 = Inr locker"
    by (cases r1) (auto simp add: deactivateCandidates_def call_NewLocker_def)
  obtain r2 w' where l: "Lock (coordinator h) locker w = (r2, w')"
    by (cases "Lock (coordinator h) locker w")
  from assms n r1 l have r2: "r2 = None"
    by (cases r2) (auto simp add: deactivateCandidates_def call_NewLocker_def call_Lock_def)
  let ?s2 = "called (LockCalled locker None) w' (called (NewLockerCalled deactivateCandidatesKey) w s)"
  obtain rb sb where b: "deactivateCandidates_body ex h cur ?s2 = (rb, sb)"
    by (cases "deactivateCandidates_body ex h cur ?s2")
  from deactivateCandidates_locked [OF n [unfolded r1] l [unfolded r2] b] assms
  have rb: "rb = Returns (c, None)" and s': "s' = deferred_Unlock (coordinator h) locker sb"
    by simp_all
  let ?find = "FindDeactivateCandidates h (clientDeactivationCandidateLimitPerProject h)
                 (projectFetchSize h) cur ?s2"
  obtain rf s3 where f: "?find = (rf, s3)" by (cases ?find)
  from b rb f obtain candidates where rf: "rf = Returns (c, candidates, None)"
    by (auto simp add: deactivateCandidates_body_def split: outcome.splits option.splits sum.splits prod.splits)
  obtain rr s4 where g: "deactivateCandidates_range ex candidates 0 s3 = (rr, s4)"
    by (cases "deactivateCandidates_range ex candidates 0 s3")
  from b rb f rf g obtain m where rr: "rr = Inr m"
    by (cases rr) (auto simp add: deactivateCandidates_body_def)
  from deactivateCandidates_range_Inr [OF g [unfolded rr]]
  have s4: "trace s4 = trace s3 @ map (\<lambda>c. DeactivateCalled (RefKey ex c) None) candidates"
    "m = int (length candidates)" "allDeactivated ex candidates (world s3)"
    "world s4 = deactivatedWorld ex candidates (world s3)"
    by simp_all
  from b f rf g rr have sb: "sb = (if 0 < length candidates
                                   then logged (LogInfof (length candidates) m) s4 else s4)"
    by (simp add: deactivateCandidates_body_def)
  have "events_since s3 s' =
             map (\<lambda>c. DeactivateCalled (RefKey ex c) None) candidates
             @ (if 0 < length candidates
                then [LogInfof (length candidates) (int (length candidates))] else [])
             @ unlock_events locker
                 (fst (Unlock (coordinator h) locker (deactivatedWorld ex candidates (world s3))))"
    using s' sb s4 by (simp add: events_since_def deferred_Unlock_sel)
  moreover have "world s' = snd (Unlock (coordinator h) locker (deactivatedWorld ex candidates (world s3)))"
    using s' sb s4 by (simp add: deferred_Unlock_sel)
  moreover have "fst (deactivateCandidates_range ex candidates 0 s3) = Inr (int (length candidates))"
    using g rr s4 by simp
  ultimately show ?thesis using n r1 l r2 f rf s4(3) by blast
qed

text \<open>
  Claim C10. Whenever \<open>deactivateCandidates\<close> returns without an error, it has taken the
  lock and found a batch of candidates; after that its trace has one successful
  deactivation for each candidate of the batch, in the order of the batch, the counter of
  the loop ends at the size of the batch, and the result line, written when the batch is
  not empty, carries the size of the batch twice.
\<close>

theorem all_candidates_deactivated_on_success:
  "deactivateCandidates ex h cur s = (Returns (c, None), s') \<longrightarrow>
     (\<exists>locker w w' candidates s3 u.
        NewLocker (coordinator h) deactivateCandidatesKey (world s) = (Inr locker, w) \<and>
        Lock (coordinator h) locker w = (None, w') \<and>
        FindDeactivateCandidates h (clientDeactivationCandidateLimitPerProject h) (projectFetchSize h) cur
           (called (LockCalled locker None) w' (called (NewLockerCalled deactivateCandidatesKey) w s))
          = (Returns (c, candidates, None), s3) \<and>
        allDeactivated ex candidates (world s3) \<and>
        fst (deactivateCandidates_range ex candidates 0 s3) = Inr (int (length candidates)) \<and>
        u = fst (Unlock (coordinator h) locker (deactivatedWorld ex candidates (world s3))) \<and>
        world s' = snd (Unlock (coordinator h) locker (deactivatedWorld ex candidates (world s3))) \<and>
        events_since s3 s' =
          map (\<lambda>c. DeactivateCalled (RefKey ex c) None) candidates
          @ (if 0 < length candidates
             then [LogInfof (length candidates) (int (length candidates))] else [])
          @ unlock_events locker u)"
  using deactivateCandidates_succeeds [of ex h cur s c s'] by blast

text \<open>In the example, the sweep after \<open>p1\<close> deactivates the clients 3, 4 and 5.\<close>

theorem all_candidates_deactivated_on_success_witness:
  "deactivateCandidates example_ex example_h ''p1'' example_s0 =
     (Returns (''p3'', None),
      \<lparr>world = [3, 4, 5], ctxDone = False,
        trace = [NewLockerCalled ''housekeeping/deactivateCandidates'',
                 LockCalled ''housekeeping/deactivateCandidates'' None,
                 FindNextNCyclingProjectInfosCalled 2 ''p1'',
                 FindDeactivateCandidatesPerProjectCalled \<lparr>ID = ''p2''\<rparr> 10,
                 FindDeactivateCandidatesPerProjectCalled \<lparr>ID = ''p3''\<rparr> 10,
                 DeactivateCalled 3 None,
                 DeactivateCalled 4 None,
                 DeactivateCalled 5 None,
                 LogInfof 3 3,
                 UnlockCalled ''housekeeping/deactivateCandidates'' None]\<rparr>)"
  using all_candidates_deactivated_on_success
    [where ex = example_ex and h = example_h and cur = "''p1''" and s = example_s0 and c = "''p3''"]
  by (simp add: example_defs sweep_defs)

text \<open>
  Claim C4. The sweep of the clients deactivates the candidates one at a time, in the
  order of the batch. When the candidates before \<open>c\<close> are deactivated and the
  deactivation of \<open>c\<close> fails, the sweep returns that error at once: the trace has the
  deactivations up to \<open>c\<close>, nothing for the candidates after it and nothing that undoes
  the earlier ones, only the unlock follows, on the world the failed call left. The loop
  then goes on with the cursor it had.
\<close>

theorem deactivation_stops_at_first_failure:
  "NewLocker (coordinator h) deactivateCandidatesKey (world s) = (Inr locker, w) \<and>
   Lock (coordinator h) locker w = (None, w') \<and>
   FindDeactivateCandidates h (clientDeactivationCandidateLimitPerProject h) (projectFetchSize h) cur
      (called (LockCalled locker None) w' (called (NewLockerCalled deactivateCandidatesKey) w s))
     = (Returns (lastProjectID, pre @ c # post, None), s3) \<and>
   allDeactivated ex pre (world s3) \<and>
   Deactivate ex (RefKey ex c) (deactivatedWorld ex pre (world s3)) = (Inl err, wfail) \<longrightarrow>
     deactivateCandidates ex h cur s =
       (Returns (DefaultProjectID (database h), Some err),
        s3\<lparr>world := snd (Unlock (coordinator h) locker wfail),
           trace := trace s3 @ map (\<lambda>c. DeactivateCalled (RefKey ex c) None) pre
                      @ DeactivateCalled (RefKey ex c) (Some err)
                      # unlock_events locker (fst (Unlock (coordinator h) locker wfail))\<rparr>) \<and>
     AttachDeactivateCandidates_loop ex h (Suc n) cur s =
       AttachDeactivateCandidates_loop ex h n cur
         (logged (LogError err) (snd (deactivateCandidates ex h cur s)))"
proof (intro impI, elim conjE)
  assume n: "NewLocker (coordinator h) deactivateCandidatesKey (world s) = (Inr locker, w)"
    and l: "Lock (coordinator h) locker w = (None, w')"
    and f: "FindDeactivateCandidates h (clientDeactivationCandidateLimitPerProject h) (projectFetchSize h) cur
              (called (LockCalled locker None) w' (called (NewLockerCalled deactivateCandidatesKey) w s))
            = (Returns (lastProjectID, pre @ c # post, None), s3)"
    and pre: "allDeactivated ex pre (world s3)"
    and c: "Deactivate ex (RefKey ex c) (deactivatedWorld ex pre (world s3)) = (Inl err, wfail)"
  note run = deactivateCandidates_aborts [OF n l f pre c]
  have "AttachDeactivateCandidates_loop ex h (Suc n) cur s =
       AttachDeactivateCandidates_loop ex h n cur
         (logged (LogError err) (snd (deactivateCandidates ex h cur s)))"
    by (simp add: run)
  with run show "deactivateCandidates ex h cur s =
       (Returns (DefaultProjectID (database h), Some err),
        s3\<lparr>world := snd (Unlock (coordinator h) locker wfail),
           trace := trace s3 @ map (\<lambda>c. DeactivateCalled (RefKey ex c) None) pre
                      @ DeactivateCalled (RefKey ex c) (Some err)
                      # unlock_events locker (fst (Unlock (coordinator h) locker wfail))\<rparr>) \<and>
     AttachDeactivateCandidates_loop ex h (Suc n) cur s =
       AttachDeactivateCandidates_loop ex h n cur
         (logged (LogError err) (snd (deactivateCandidates ex h cur s)))"
    by simp
qed

text \<open>
  In the example with the failing client 4, the batch after \<open>p1\<close> is 3, 4, 5: client 3
  stays deactivated, client 5 is not touched, and the loop keeps the cursor \<open>p1\<close>.
\<close>

theorem deactivation_stops_at_first_failure_witness:
  "FindDeactivateCandidates example_h 10 2 ''p1''
      (called (LockCalled ''housekeeping/deactivateCandidates'' None) []
         (called (NewLockerCalled ''housekeeping/deactivateCandidates'') [] example_s0)) =
     (Returns (''p3'', [3] @ 4 # [5], None),
      \<lparr>world = [], ctxDone = False,
        trace = [NewLockerCalled ''housekeeping/deactivateCandidates'',
                 LockCalled ''housekeeping/deactivateCandidates'' None,
                 FindNextNCyclingProjectInfosCalled 2 ''p1'',
                 FindDeactivateCandidatesPerProjectCalled \<lparr>ID = ''p2''\<rparr> 10,
                 FindDeactivateCandidatesPerProjectCalled \<lparr>ID = ''p3''\<rparr> 10]\<rparr>) \<and>
   allDeactivated example_ex_flaky [3] [] \<and>
   Deactivate example_ex_flaky (RefKey example_ex_flaky 4) (deactivatedWorld example_ex_flaky [3] []) =
     (Inl ''deactivate failed'', [3]) \<and>
   deactivateCandidates example_ex_flaky example_h ''p1'' example_s0 =
     (Returns (''000000000000000000000000'', Some ''deactivate failed''),
      \<lparr>world = [3], ctxDone = False,
        trace = [NewLockerCalled ''housekeeping/deactivateCandidates'',
                 LockCalled ''housekeeping/deactivateCandidates'' None,
                 FindNextNCyclingProjectInfosCalled 2 ''p1'',
                 FindDeactivateCandidatesPerProjectCalled \<lparr>ID = ''p2''\<rparr> 10,
                 FindDeactivateCandidatesPerProjectCalled \<lparr>ID = ''p3''\<rparr> 10,
                 DeactivateCalled 3 None,
                 DeactivateCalled 4 (Some ''deactivate failed''),
                 UnlockCalled ''housekeeping/deactivateCandidates'' None]\<rparr>) \<and>
   fst (AttachDeactivateCandidates_loop example_ex_flaky example_h (Suc 0) ''p1'' example_s0) =
     StillRunning ''p1''"
  using deactivation_stops_at_first_failure
    [where ex = example_ex_flaky and h = example_h and cur = "''p1''" and s = example_s0
       and locker = "''housekeeping/deactivateCandidates''" and w = "[]" and w' = "[]"
       and lastProjectID = "''p3''" and pre = "[3]" and c = 4 and post = "[5]"
       and err = "''deactivate failed''" and wfail = "[3]" and n = 0
       and ?s3.0 = "\<lparr>world = [], ctxDone = False,
        trace = [NewLockerCalled ''housekeeping/deactivateCandidates'',
                 LockCalled ''housekeeping/deactivateCandidates'' None,
                 FindNextNCyclingProjectInfosCalled 2 ''p1'',
                 FindDeactivateCandidatesPerProjectCalled \<lparr>ID = ''p2''\<rparr> 10,
                 FindDeactivateCandidatesPerProjectCalled \<lparr>ID = ''p3''\<rparr> 10]\<rparr>"]
  by (simp add: example_defs example_ex_flaky_def sweep_defs deactivatedWorld_def)

subsection \<open>The scheduler loop of each sweep\<close>

lemma deactivateCandidates_ctxDone:
  "deactivateCandidates ex h cur (s\<lparr>ctxDone := b\<rparr>) =
     (case deactivateCandidates ex h cur s of (r, s') \<Rightarrow> (r, s'\<lparr>ctxDone := b\<rparr>))"
  by (auto simp add: deactivateCandidates_def call_NewLocker_def call_Lock_def called_ctxDone
        deactivateCandidates_body_ctxDone deferred_Unlock_ctxDone
        split: prod.splits sum.splits option.splits)

lemma DeleteDocument_ctxDone:
  "DeleteDocument h cur (s\<lparr>ctxDone := b\<rparr>) =
     (case DeleteDocument h cur s of (r, s') \<Rightarrow> (r, s'\<lparr>ctxDone := b\<rparr>))"
  by (auto simp add: DeleteDocument_def call_NewLocker_def call_Lock_def called_ctxDone
        DeleteDocument_body_ctxDone deferred_Unlock_ctxDone
        split: prod.splits sum.splits option.splits)

lemma not_isSelect_body: "list_all isBodyEvent evs \<Longrightarrow> filter isSelect evs = []"
proof (induction evs)
  case Nil
  then show ?case by simp
next
  case (Cons ev evs)
  then show ?case by (cases ev) simp_all
qed

lemma not_isSelect_unlock_events: "filter isSelect (unlock_events locker u) = []"
  by (cases u) (simp_all add: unlock_events_def)

lemma deactivateCandidates_no_select:
  assumes "deactivateCandidates ex h cur s = (r, s')"
  shows "filter isSelect (events_since s s') = []"
  using deactivateCandidates_shape [OF assms]
  by (auto simp add: events_since_def not_isSelect_body not_isSelect_unlock_events)

lemma DeleteDocument_no_select:
  assumes "DeleteDocument h cur s = (r, s')"
  shows "filter isSelect (events_since s s') = []"
  using DeleteDocument_shape [OF assms]
  by (auto simp add: events_since_def not_isSelect_body not_isSelect_unlock_events)

lemma deactivateCandidates_first_event:
  assumes "deactivateCandidates ex h cur s = (r, s')"
  shows "\<exists>evs. trace s' = trace s @ NewLockerCalled deactivateCandidatesKey # evs"
  using deactivateCandidates_shape [OF assms] by auto

lemma DeleteDocument_first_event:
  assumes "DeleteDocument h cur s = (r, s')"
  shows "\<exists>evs. trace s' = trace s @ NewLockerCalled documentHardDeletionLockKey # evs"
  using DeleteDocument_shape [OF assms] by auto

lemma select_wait_trace:
  "select_wait ex interval s = (c, s') \<Longrightarrow> trace s' = trace s @ [SelectCalled interval]"
  by (auto simp add: select_wait_def split: if_splits prod.splits)


lemma AttachDeactivateCandidates_loop_trace:
  "\<exists>evs. trace (snd (AttachDeactivateCandidates_loop ex h n cur s)) = trace s @ evs"
proof (induction n arbitrary: cur s)
  case 0
  show ?case by simp
next
  case (Suc n)
  obtain r s1 where sw: "deactivateCandidates ex h cur s = (r, s1)"
    by (cases "deactivateCandidates ex h cur s")
  from sweep_trace_grows(1) [OF sw] obtain evs1 where evs1: "trace s1 = trace s @ evs1" by blast
  show ?case
  proof (cases r)
    case Panics
    with sw evs1 show ?thesis by simp
  next
    case (Returns p)
    obtain c e where p: "p = (c, e)" by (cases p)
    show ?thesis
    proof (cases e)
      case (Some err)
      from Suc.IH [of cur "logged (LogError err) s1"] sw Returns p Some evs1
      show ?thesis by auto
    next
      case None
      obtain sc s2 where sel: "select_wait ex (intervalDeactivateCandidates h) s1 = (sc, s2)"
        by (cases "select_wait ex (intervalDeactivateCandidates h) s1")
      from select_wait_trace [OF sel] evs1
      have s2: "trace s2 = trace s @ evs1 @ [SelectCalled (intervalDeactivateCandidates h)]" by simp
      show ?thesis
      proof (cases sc)
        case TimerFired
        from Suc.IH [of c s2] sw Returns p None sel TimerFired s2 show ?thesis by auto
      next
        case CtxDone
        with sw Returns p None sel s2 show ?thesis by simp
      qed
    qed
  qed
qed

lemma AttachDocumentHardDeletion_loop_trace:
  "\<exists>evs. trace (snd (AttachDocumentHardDeletion_loop ex h n cur s)) = trace s @ evs"
proof (induction n arbitrary: cur s)
  case 0
  show ?case by simp
next
  case (Suc n)
  obtain r s1 where sw: "DeleteDocument h cur s = (r, s1)"
    by (cases "DeleteDocument h cur s")
  from sweep_trace_grows(2) [OF sw] obtain evs1 where evs1: "trace s1 = trace s @ evs1" by blast
  show ?case
  proof (cases r)
    case Panics
    with sw evs1 show ?thesis by simp
  next
    case (Returns p)
    obtain c e where p: "p = (c, e)" by (cases p)
    show ?thesis
    proof (cases e)
      case (Some err)
      from Suc.IH [of cur "logged (LogError err) s1"] sw Returns p Some evs1
      show ?thesis by auto
    next
      case None
      obtain sc s2 where sel: "select_wait ex (intervalDeleteDocuments h) s1 = (sc, s2)"
        by (cases "select_wait ex (intervalDeleteDocuments h) s1")
      from select_wait_trace [OF sel] evs1
      have s2: "trace s2 = trace s @ evs1 @ [SelectCalled (intervalDeleteDocuments h)]" by simp
      show ?thesis
      proof (cases sc)
        case TimerFired
        from Suc.IH [of c s2] sw Returns p None sel TimerFired s2 show ?thesis by auto
      next
        case CtxDone
        with sw Returns p None sel s2 show ?thesis by simp
      qed
    qed
  qed
qed

text \<open>A loop that has returned has the same result with more iterations allowed.\<close>

lemma AttachDeactivateCandidates_loop_Returned:
  "AttachDeactivateCandidates_loop ex h n cur s = (Returned, s') \<Longrightarrow>
     AttachDeactivateCandidates_loop ex h (n + m) cur s = (Returned, s')"
proof (induction n arbitrary: cur s)
  case 0
  then show ?case by simp
next
  case (Suc n)
  then show ?case
    by (auto split: prod.splits outcome.splits option.splits select_case.splits)
qed

lemma AttachDocumentHardDeletion_loop_Returned:
  "AttachDocumentHardDeletion_loop ex h n cur s = (Returned, s') \<Longrightarrow>
     AttachDocumentHardDeletion_loop ex h (n + m) cur s = (Returned, s')"
proof (induction n arbitrary: cur s)
  case 0
  then show ?case by simp
next
  case (Suc n)
  then show ?case
    by (auto split: prod.splits outcome.splits option.splits select_case.splits)
qed

lemma AttachDeactivateCandidates_loop_first_event:
  "\<exists>rest. trace (snd (AttachDeactivateCandidates_loop ex h (Suc n) cur s)) =
            trace s @ NewLockerCalled deactivateCandidatesKey # rest"
proof -
  obtain r s1 where sw: "deactivateCandidates ex h cur s = (r, s1)"
    by (cases "deactivateCandidates ex h cur s")
  from deactivateCandidates_first_event [OF sw] obtain evs1 where
    evs1: "trace s1 = trace s @ NewLockerCalled deactivateCandidatesKey # evs1" by blast
  show ?thesis
  proof (cases r)
    case Panics
    with sw evs1 show ?thesis by simp
  next
    case (Returns p)
    obtain c e where p: "p = (c, e)" by (cases p)
    show ?thesis
    proof (cases e)
      case (Some err)
      from AttachDeactivateCandidates_loop_trace [of ex h n cur "logged (LogError err) s1"]
        sw Returns p Some evs1
      show ?thesis by auto
    next
      case None
      obtain sc s2 where sel: "select_wait ex (intervalDeactivateCandidates h) s1 = (sc, s2)"
        by (cases "select_wait ex (intervalDeactivateCandidates h) s1")
      from select_wait_trace [OF sel] evs1
      have s2: "trace s2 = trace s @ NewLockerCalled deactivateCandidatesKey
                  # evs1 @ [SelectCalled (intervalDeactivateCandidates h)]" by simp
      show ?thesis
      proof (cases sc)
        case TimerFired
        from AttachDeactivateCandidates_loop_trace [of ex h n c s2] sw Returns p None sel TimerFired s2
        show ?thesis by auto
      next
        case CtxDone
        with sw Returns p None sel s2 show ?thesis by simp
      qed
    qed
  qed
qed

lemma AttachDocumentHardDeletion_loop_first_event:
  "\<exists>rest. trace (snd (AttachDocumentHardDeletion_loop ex h (Suc n) cur s)) =
            trace s @ NewLockerCalled documentHardDeletionLockKey # rest"
proof -
  obtain r s1 where sw: "DeleteDocument h cur s = (r, s1)"
    by (cases "DeleteDocument h cur s")
  from DeleteDocument_first_event [OF sw] obtain evs1 where
    evs1: "trace s1 = trace s @ NewLockerCalled documentHardDeletionLockKey # evs1" by blast
  show ?thesis
  proof (cases r)
    case Panics
    with sw evs1 show ?thesis by simp
  next
    case (Returns p)
    obtain c e where p: "p = (c, e)" by (cases p)
    show ?thesis
    proof (cases e)
      case (Some err)
      from AttachDocumentHardDeletion_loop_trace [of ex h n cur "logged (LogError err) s1"]
        sw Returns p Some evs1
      show ?thesis by auto
    next
      case None
      obtain sc s2 where sel: "select_wait ex (intervalDeleteDocuments h) s1 = (sc, s2)"
        by (cases "select_wait ex (intervalDeleteDocuments h) s1")
      from select_wait_trace [OF sel] evs1
      have s2: "trace s2 = trace s @ NewLockerCalled documentHardDeletionLockKey
                  # evs1 @ [SelectCalled (intervalDeleteDocuments h)]" by simp
      show ?thesis
      proof (cases sc)
        case TimerFired
        from AttachDocumentHardDeletion_loop_trace [of ex h n c s2] sw Returns p None sel TimerFired s2
        show ?thesis by auto
      next
        case CtxDone
        with sw Returns p None sel s2 show ?thesis by simp
      qed
    qed
  qed
qed

lemma AttachDeactivateCandidates_loop_retry:
  assumes sw: "deactivateCandidates ex h cur s = (Returns (c, Some err), s1)"
  shows "\<exists>rest. events_since s (snd (AttachDeactivateCandidates_loop ex h (Suc (Suc n)) cur s)) =
           events_since s s1 @ LogError err # NewLockerCalled deactivateCandidatesKey # rest"
proof -
  from sweep_trace_grows(1) [OF sw] obtain evs1 where evs1: "trace s1 = trace s @ evs1" by blast
  from AttachDeactivateCandidates_loop_first_event [of ex h n cur "logged (LogError err) s1"]
  obtain rest where
    "trace (snd (AttachDeactivateCandidates_loop ex h (Suc n) cur (logged (LogError err) s1))) =
       trace (logged (LogError err) s1) @ NewLockerCalled deactivateCandidatesKey # rest"
    by blast
  moreover have "AttachDeactivateCandidates_loop ex h (Suc (Suc n)) cur s =
      AttachDeactivateCandidates_loop ex h (Suc n) cur (logged (LogError err) s1)"
    using sw by (simp del: AttachDeactivateCandidates_loop.simps
                      add: AttachDeactivateCandidates_loop.simps(2) [of ex h "Suc n"])
  ultimately show ?thesis using evs1 by (simp add: events_since_def)
qed

lemma AttachDocumentHardDeletion_loop_retry:
  assumes sw: "DeleteDocument h cur s = (Returns (c, Some err), s1)"
  shows "\<exists>rest. events_since s (snd (AttachDocumentHardDeletion_loop ex h (Suc (Suc n)) cur s)) =
           events_since s s1 @ LogError err # NewLockerCalled documentHardDeletionLockKey # rest"
proof -
  from sweep_trace_grows(2) [OF sw] obtain evs1 where evs1: "trace s1 = trace s @ evs1" by blast
  from AttachDocumentHardDeletion_loop_first_event [of ex h n cur "logged (LogError err) s1"]
  obtain rest where
    "trace (snd (AttachDocumentHardDeletion_loop ex h (Suc n) cur (logged (LogError err) s1))) =
       trace (logged (LogError err) s1) @ NewLockerCalled documentHardDeletionLockKey # rest"
    by blast
  moreover have "AttachDocumentHardDeletion_loop ex h (Suc (Suc n)) cur s =
      AttachDocumentHardDeletion_loop ex h (Suc n) cur (logged (LogError err) s1)"
    using sw by (simp del: AttachDocumentHardDeletion_loop.simps
                      add: AttachDocumentHardDeletion_loop.simps(2) [of ex h "Suc n"])
  ultimately show ?thesis using evs1 by (simp add: events_since_def)
qed

lemma AttachDeactivateCandidates_loop_select:
  assumes "filter isSelect (events_since s (snd (AttachDeactivateCandidates_loop ex h (Suc 0) cur s))) \<noteq> []"
  shows "\<exists>c. fst (deactivateCandidates ex h cur s) = Returns (c, None)"
proof -
  obtain r s1 where sw: "deactivateCandidates ex h cur s = (r, s1)"
    by (cases "deactivateCandidates ex h cur s")
  from sweep_trace_grows(1) [OF sw] obtain evs1 where evs1: "trace s1 = trace s @ evs1" by blast
  from deactivateCandidates_no_select [OF sw] evs1 have ns: "filter isSelect evs1 = []"
    by (simp add: events_since_def)
  show ?thesis
  proof (cases r)
    case Panics
    with sw evs1 ns assms show ?thesis by (simp add: events_since_def)
  next
    case (Returns p)
    obtain c e where p: "p = (c, e)" by (cases p)
    show ?thesis
    proof (cases e)
      case (Some err)
      with sw Returns p evs1 ns assms show ?thesis by (simp add: events_since_def)
    next
      case None
      with sw Returns p show ?thesis by simp
    qed
  qed
qed

lemma AttachDocumentHardDeletion_loop_select:
  assumes "filter isSelect (events_since s (snd (AttachDocumentHardDeletion_loop ex h (Suc 0) cur s))) \<noteq> []"
  shows "\<exists>c. fst (DeleteDocument h cur s) = Returns (c, None)"
proof -
  obtain r s1 where sw: "DeleteDocument h cur s = (r, s1)"
    by (cases "DeleteDocument h cur s")
  from sweep_trace_grows(2) [OF sw] obtain evs1 where evs1: "trace s1 = trace s @ evs1" by blast
  from DeleteDocument_no_select [OF sw] evs1 have ns: "filter isSelect evs1 = []"
    by (simp add: events_since_def)
  show ?thesis
  proof (cases r)
    case Panics
    with sw evs1 ns assms show ?thesis by (simp add: events_since_def)
  next
    case (Returns p)
    obtain c e where p: "p = (c, e)" by (cases p)
    show ?thesis
    proof (cases e)
      case (Some err)
      with sw Returns p evs1 ns assms show ?thesis by (simp add: events_since_def)
    next
      case None
      with sw Returns p show ?thesis by simp
    qed
  qed
qed

lemma AttachDeactivateCandidates_loop_cursor:
  assumes "fst (AttachDeactivateCandidates_loop ex h (Suc 0) cur s) = StillRunning c'"
  shows "(c' = cur \<and> (\<exists>c err. fst (deactivateCandidates ex h cur s) = Returns (c, Some err))) \<or>
         fst (deactivateCandidates ex h cur s) = Returns (c', None)"
  using assms
  by (auto split: prod.splits outcome.splits option.splits select_case.splits)

lemma AttachDocumentHardDeletion_loop_cursor:
  assumes "fst (AttachDocumentHardDeletion_loop ex h (Suc 0) cur s) = StillRunning c'"
  shows "(c' = cur \<and> (\<exists>c err. fst (DeleteDocument h cur s) = Returns (c, Some err))) \<or>
         fst (DeleteDocument h cur s) = Returns (c', None)"
  using assms
  by (auto split: prod.splits outcome.splits option.splits select_case.splits)

text \<open>
  Claim C2. In an iteration of either loop, when the sweep returns an error the loop logs
  it and goes on with the cursor it had, not with the one returned beside the error; when
  the sweep returns no error and the wait ends by the timer, the loop goes on with the
  cursor the sweep returned. After one iteration the cursor is different from the one
  before only if the sweep returned it without an error.
\<close>

theorem cursor_kept_on_error_replaced_on_success:
  "(deactivateCandidates ex h cur s = (Returns (c, Some err), s1) \<longrightarrow>
      AttachDeactivateCandidates_loop ex h (Suc n) cur s =
        AttachDeactivateCandidates_loop ex h n cur (logged (LogError err) s1)) \<and>
   (deactivateCandidates ex' h' cur' s' = (Returns (c', None), s1') \<and>
    select_wait ex' (intervalDeactivateCandidates h') s1' = (TimerFired, s2') \<longrightarrow>
      AttachDeactivateCandidates_loop ex' h' (Suc n) cur' s' =
        AttachDeactivateCandidates_loop ex' h' n c' s2') \<and>
   (fst (AttachDeactivateCandidates_loop ex h (Suc 0) cur s) = StillRunning k \<longrightarrow>
      (k = cur \<and> (\<exists>c err. fst (deactivateCandidates ex h cur s) = Returns (c, Some err))) \<or>
      fst (deactivateCandidates ex h cur s) = Returns (k, None)) \<and>
   (DeleteDocument h cur s = (Returns (d, Some derr), t1) \<longrightarrow>
      AttachDocumentHardDeletion_loop ex h (Suc n) cur s =
        AttachDocumentHardDeletion_loop ex h n cur (logged (LogError derr) t1)) \<and>
   (DeleteDocument h' cur' s' = (Returns (d', None), t1') \<and>
    select_wait ex' (intervalDeleteDocuments h') t1' = (TimerFired, t2') \<longrightarrow>
      AttachDocumentHardDeletion_loop ex' h' (Suc n) cur' s' =
        AttachDocumentHardDeletion_loop ex' h' n d' t2') \<and>
   (fst (AttachDocumentHardDeletion_loop ex h (Suc 0) cur s) = StillRunning j \<longrightarrow>
      (j = cur \<and> (\<exists>c err. fst (DeleteDocument h cur s) = Returns (c, Some err))) \<or>
      fst (DeleteDocument h cur s) = Returns (j, None))"
proof -
  have a: "deactivateCandidates ex h cur s = (Returns (c, Some err), s1) \<longrightarrow>
      AttachDeactivateCandidates_loop ex h (Suc n) cur s =
        AttachDeactivateCandidates_loop ex h n cur (logged (LogError err) s1)"
    by simp
  have b: "deactivateCandidates ex' h' cur' s' = (Returns (c', None), s1') \<and>
    select_wait ex' (intervalDeactivateCandidates h') s1' = (TimerFired, s2') \<longrightarrow>
      AttachDeactivateCandidates_loop ex' h' (Suc n) cur' s' =
        AttachDeactivateCandidates_loop ex' h' n c' s2'"
    by simp
  have c: "fst (AttachDeactivateCandidates_loop ex h (Suc 0) cur s) = StillRunning k \<longrightarrow>
      (k = cur \<and> (\<exists>c err. fst (deactivateCandidates ex h cur s) = Returns (c, Some err))) \<or>
      fst (deactivateCandidates ex h cur s) = Returns (k, None)"
    using AttachDeactivateCandidates_loop_cursor [of ex h cur s k] by blast
  have d: "DeleteDocument h cur s = (Returns (d, Some derr), t1) \<longrightarrow>
      AttachDocumentHardDeletion_loop ex h (Suc n) cur s =
        AttachDocumentHardDeletion_loop ex h n cur (logged (LogError derr) t1)"
    by simp
  have e: "DeleteDocument h' cur' s' = (Returns (d', None), t1') \<and>
    select_wait ex' (intervalDeleteDocuments h') t1' = (TimerFired, t2') \<longrightarrow>
      AttachDocumentHardDeletion_loop ex' h' (Suc n) cur' s' =
        AttachDocumentHardDeletion_loop ex' h' n d' t2'"
    by simp
  have f: "fst (AttachDocumentHardDeletion_loop ex h (Suc 0) cur s) = StillRunning j \<longrightarrow>
      (j = cur \<and> (\<exists>c err. fst (DeleteDocument h cur s) = Returns (c, Some err))) \<or>
      fst (DeleteDocument h cur s) = Returns (j, None)"
    using AttachDocumentHardDeletion_loop_cursor [of ex h cur s j] by blast
  show ?thesis by (intro conjI a b c d e f)
qed

text \<open>
  In the example, with a held lock each loop keeps the cursor \<open>p1\<close> although the sweeps
  return the sentinel beside the error; with a free lock they move on to \<open>p3\<close>.
\<close>

theorem cursor_kept_on_error_replaced_on_success_witness:
  "deactivateCandidates example_ex (example_h\<lparr>coordinator := example_coordinator_held\<rparr>) ''p1'' example_s0 =
     (Returns (''000000000000000000000000'', Some ''held''),
      \<lparr>world = [], ctxDone = False,
        trace = [NewLockerCalled ''housekeeping/deactivateCandidates'',
                 LockCalled ''housekeeping/deactivateCandidates'' (Some ''held'')]\<rparr>) \<and>
   DeleteDocument (example_h\<lparr>coordinator := example_coordinator_held\<rparr>) ''p1'' example_s0 =
     (Returns (''000000000000000000000000'', Some ''held''),
      \<lparr>world = [], ctxDone = False,
        trace = [NewLockerCalled ''housekeeping/DocumentHardDeletionLock'',
                 LockCalled ''housekeeping/DocumentHardDeletionLock'' (Some ''held'')]\<rparr>) \<and>
   fst (AttachDeactivateCandidates_loop example_ex (example_h\<lparr>coordinator := example_coordinator_held\<rparr>)
          (Suc 0) ''p1'' example_s0) = StillRunning ''p1'' \<and>
   fst (AttachDocumentHardDeletion_loop example_ex (example_h\<lparr>coordinator := example_coordinator_held\<rparr>)
          (Suc 0) ''p1'' example_s0) = StillRunning ''p1'' \<and>
   fst (deactivateCandidates example_ex example_h ''p1'' example_s0) = Returns (''p3'', None) \<and>
   fst (select_wait example_ex (intervalDeactivateCandidates example_h)
          (snd (deactivateCandidates example_ex example_h ''p1'' example_s0))) = TimerFired \<and>
   fst (DeleteDocument example_h ''p1'' example_s0) = Returns (''p3'', None) \<and>
   fst (select_wait example_ex (intervalDeleteDocuments example_h)
          (snd (DeleteDocument example_h ''p1'' example_s0))) = TimerFired \<and>
   fst (AttachDeactivateCandidates_loop example_ex example_h (Suc 0) ''p1'' example_s0) = StillRunning ''p3'' \<and>
   fst (AttachDocumentHardDeletion_loop example_ex example_h (Suc 0) ''p1'' example_s0) = StillRunning ''p3''"
  using cursor_kept_on_error_replaced_on_success
    [where ex = example_ex and h = "example_h\<lparr>coordinator := example_coordinator_held\<rparr>"
       and cur = "''p1''" and s = example_s0 and c = "''000000000000000000000000''" and err = "''held''"
       and d = "''000000000000000000000000''" and derr = "''held''" and k = "''p1''" and j = "''p1''"
       and n = 0
       and ex' = example_ex and h' = example_h and cur' = "''p1''" and s' = example_s0
       and c' = "''p3''" and d' = "''p3''"
       and ?s1' = "snd (deactivateCandidates example_ex example_h ''p1'' example_s0)"
       and ?s2' = "snd (select_wait example_ex (intervalDeactivateCandidates example_h)
                      (snd (deactivateCandidates example_ex example_h ''p1'' example_s0)))"
       and ?t1' = "snd (DeleteDocument example_h ''p1'' example_s0)"
       and ?t2' = "snd (select_wait example_ex (intervalDeleteDocuments example_h)
                      (snd (DeleteDocument example_h ''p1'' example_s0)))"]
  by (simp add: example_defs example_coordinator_held_def sweep_defs select_wait_def)

text \<open>
  Claim C3. After an iteration whose sweep returns an error, the events of the loop are
  those of the sweep, the line that logs the error and then at once the first call of the
  next sweep: there is no \<^verbatim>\<open>select\<close> between them, and the loop goes on in the same
  way when the context is already cancelled. An iteration contains a \<^verbatim>\<open>select\<close>,
  the wait for the interval and the observation of the cancellation, only if its sweep
  returned no error.
\<close>

theorem retry_without_wait_after_error:
  "(deactivateCandidates ex h cur s = (Returns (c, Some err), s1) \<longrightarrow>
      (\<exists>rest. events_since s (snd (AttachDeactivateCandidates_loop ex h (Suc (Suc n)) cur s)) =
                events_since s s1 @ LogError err # NewLockerCalled deactivateCandidatesKey # rest) \<and>
      filter isSelect (events_since s s1 @ [LogError err]) = [] \<and>
      AttachDeactivateCandidates_loop ex h (Suc n) cur (s\<lparr>ctxDone := True\<rparr>) =
        AttachDeactivateCandidates_loop ex h n cur (logged (LogError err) (s1\<lparr>ctxDone := True\<rparr>))) \<and>
   (filter isSelect (events_since s' (snd (AttachDeactivateCandidates_loop ex' h' (Suc 0) cur' s'))) \<noteq> [] \<longrightarrow>
      (\<exists>c. fst (deactivateCandidates ex' h' cur' s') = Returns (c, None))) \<and>
   (DeleteDocument h cur s = (Returns (d, Some derr), t1) \<longrightarrow>
      (\<exists>rest. events_since s (snd (AttachDocumentHardDeletion_loop ex h (Suc (Suc n)) cur s)) =
                events_since s t1 @ LogError derr # NewLockerCalled documentHardDeletionLockKey # rest) \<and>
      filter isSelect (events_since s t1 @ [LogError derr]) = [] \<and>
      AttachDocumentHardDeletion_loop ex h (Suc n) cur (s\<lparr>ctxDone := True\<rparr>) =
        AttachDocumentHardDeletion_loop ex h n cur (logged (LogError derr) (t1\<lparr>ctxDone := True\<rparr>))) \<and>
   (filter isSelect (events_since s' (snd (AttachDocumentHardDeletion_loop ex' h' (Suc 0) cur' s'))) \<noteq> [] \<longrightarrow>
      (\<exists>c. fst (DeleteDocument h' cur' s') = Returns (c, None)))"
proof -
  have a: "deactivateCandidates ex h cur s = (Returns (c, Some err), s1) \<longrightarrow>
      (\<exists>rest. events_since s (snd (AttachDeactivateCandidates_loop ex h (Suc (Suc n)) cur s)) =
                events_since s s1 @ LogError err # NewLockerCalled deactivateCandidatesKey # rest) \<and>
      filter isSelect (events_since s s1 @ [LogError err]) = [] \<and>
      AttachDeactivateCandidates_loop ex h (Suc n) cur (s\<lparr>ctxDone := True\<rparr>) =
        AttachDeactivateCandidates_loop ex h n cur (logged (LogError err) (s1\<lparr>ctxDone := True\<rparr>))"
  proof
    assume sw: "deactivateCandidates ex h cur s = (Returns (c, Some err), s1)"
    have "deactivateCandidates ex h cur (s\<lparr>ctxDone := True\<rparr>) = (Returns (c, Some err), s1\<lparr>ctxDone := True\<rparr>)"
      by (simp add: deactivateCandidates_ctxDone sw)
    then have "AttachDeactivateCandidates_loop ex h (Suc n) cur (s\<lparr>ctxDone := True\<rparr>) =
        AttachDeactivateCandidates_loop ex h n cur (logged (LogError err) (s1\<lparr>ctxDone := True\<rparr>))"
      by simp
    with AttachDeactivateCandidates_loop_retry [OF sw, of n] deactivateCandidates_no_select [OF sw]
    show "(\<exists>rest. events_since s (snd (AttachDeactivateCandidates_loop ex h (Suc (Suc n)) cur s)) =
                events_since s s1 @ LogError err # NewLockerCalled deactivateCandidatesKey # rest) \<and>
      filter isSelect (events_since s s1 @ [LogError err]) = [] \<and>
      AttachDeactivateCandidates_loop ex h (Suc n) cur (s\<lparr>ctxDone := True\<rparr>) =
        AttachDeactivateCandidates_loop ex h n cur (logged (LogError err) (s1\<lparr>ctxDone := True\<rparr>))"
      by simp
  qed
  have b: "filter isSelect (events_since s' (snd (AttachDeactivateCandidates_loop ex' h' (Suc 0) cur' s'))) \<noteq> [] \<longrightarrow>
      (\<exists>c. fst (deactivateCandidates ex' h' cur' s') = Returns (c, None))"
    using AttachDeactivateCandidates_loop_select [of s' ex' h' cur'] by blast
  have c: "DeleteDocument h cur s = (Returns (d, Some derr), t1) \<longrightarrow>
      (\<exists>rest. events_since s (snd (AttachDocumentHardDeletion_loop ex h (Suc (Suc n)) cur s)) =
                events_since s t1 @ LogError derr # NewLockerCalled documentHardDeletionLockKey # rest) \<and>
      filter isSelect (events_since s t1 @ [LogError derr]) = [] \<and>
      AttachDocumentHardDeletion_loop ex h (Suc n) cur (s\<lparr>ctxDone := True\<rparr>) =
        AttachDocumentHardDeletion_loop ex h n cur (logged (LogError derr) (t1\<lparr>ctxDone := True\<rparr>))"
  proof
    assume sw: "DeleteDocument h cur s = (Returns (d, Some derr), t1)"
    have "DeleteDocument h cur (s\<lparr>ctxDone := True\<rparr>) = (Returns (d, Some derr), t1\<lparr>ctxDone := True\<rparr>)"
      by (simp add: DeleteDocument_ctxDone sw)
    then have "AttachDocumentHardDeletion_loop ex h (Suc n) cur (s\<lparr>ctxDone := True\<rparr>) =
        AttachDocumentHardDeletion_loop ex h n cur (logged (LogError derr) (t1\<lparr>ctxDone := True\<rparr>))"
      by simp
    with AttachDocumentHardDeletion_loop_retry [OF sw, of ex n] DeleteDocument_no_select [OF sw]
    show "(\<exists>rest. events_since s (snd (AttachDocumentHardDeletion_loop ex h (Suc (Suc n)) cur s)) =
                events_since s t1 @ LogError derr # NewLockerCalled documentHardDeletionLockKey # rest) \<and>
      filter isSelect (events_since s t1 @ [LogError derr]) = [] \<and>
      AttachDocumentHardDeletion_loop ex h (Suc n) cur (s\<lparr>ctxDone := True\<rparr>) =
        AttachDocumentHardDeletion_loop ex h n cur (logged (LogError derr) (t1\<lparr>ctxDone := True\<rparr>))"
      by simp
  qed
  have d: "filter isSelect (events_since s' (snd (AttachDocumentHardDeletion_loop ex' h' (Suc 0) cur' s'))) \<noteq> [] \<longrightarrow>
      (\<exists>c. fst (DeleteDocument h' cur' s') = Returns (c, None))"
    using AttachDocumentHardDeletion_loop_select [of s' ex' h' cur'] by blast
  show ?thesis by (intro conjI a b c d)
qed

text \<open>
  In the example, with a held lock two iterations are two sweeps with nothing but the log
  line between them; with a free lock the iteration ends with the \<^verbatim>\<open>select\<close>.
\<close>

theorem retry_without_wait_after_error_witness:
  "deactivateCandidates example_ex (example_h\<lparr>coordinator := example_coordinator_held\<rparr>) ''p1'' example_s0 =
     (Returns (''000000000000000000000000'', Some ''held''),
      \<lparr>world = [], ctxDone = False,
        trace = [NewLockerCalled ''housekeeping/deactivateCandidates'',
                 LockCalled ''housekeeping/deactivateCandidates'' (Some ''held'')]\<rparr>) \<and>
   events_since example_s0
     (snd (AttachDeactivateCandidates_loop example_ex (example_h\<lparr>coordinator := example_coordinator_held\<rparr>)
             (Suc (Suc 0)) ''p1'' example_s0)) =
     [NewLockerCalled ''housekeeping/deactivateCandidates'',
      LockCalled ''housekeeping/deactivateCandidates'' (Some ''held''),
      LogError ''held'',
      NewLockerCalled ''housekeeping/deactivateCandidates'',
      LockCalled ''housekeeping/deactivateCandidates'' (Some ''held''),
      LogError ''held''] \<and>
   DeleteDocument (example_h\<lparr>coordinator := example_coordinator_held\<rparr>) ''p1'' example_s0 =
     (Returns (''000000000000000000000000'', Some ''held''),
      \<lparr>world = [], ctxDone = False,
        trace = [NewLockerCalled ''housekeeping/DocumentHardDeletionLock'',
                 LockCalled ''housekeeping/DocumentHardDeletionLock'' (Some ''held'')]\<rparr>) \<and>
   events_since example_s0
     (snd (AttachDocumentHardDeletion_loop example_ex (example_h\<lparr>coordinator := example_coordinator_held\<rparr>)
             (Suc (Suc 0)) ''p1'' example_s0)) =
     [NewLockerCalled ''housekeeping/DocumentHardDeletionLock'',
      LockCalled ''housekeeping/DocumentHardDeletionLock'' (Some ''held''),
      LogError ''held'',
      NewLockerCalled ''housekeeping/DocumentHardDeletionLock'',
      LockCalled ''housekeeping/DocumentHardDeletionLock'' (Some ''held''),
      LogError ''held''] \<and>
   filter isSelect (events_since example_s0
     (snd (AttachDeactivateCandidates_loop example_ex example_h (Suc 0) ''p2'' example_s0))) =
     [SelectCalled 30] \<and>
   fst (deactivateCandidates example_ex example_h ''p2'' example_s0) =
     Returns (''000000000000000000000000'', None) \<and>
   filter isSelect (events_since example_s0
     (snd (AttachDocumentHardDeletion_loop example_ex example_h (Suc 0) ''p2'' example_s0))) =
     [SelectCalled 60] \<and>
   fst (DeleteDocument example_h ''p2'' example_s0) = Returns (''000000000000000000000000'', None)"
  using retry_without_wait_after_error
    [where ex = example_ex and h = "example_h\<lparr>coordinator := example_coordinator_held\<rparr>"
       and cur = "''p1''" and s = example_s0 and c = "''000000000000000000000000''" and err = "''held''"
       and d = "''000000000000000000000000''" and derr = "''held''" and n = 0
       and ex' = example_ex and h' = example_h and cur' = "''p2''" and s' = example_s0]
  by (simp add: example_defs example_coordinator_held_def sweep_defs select_wait_def events_since_def)

subsection \<open>Stopping a loop\<close>

text \<open>
  With a lock service that never gives a locker, a loop never returns, whatever the state
  of the context: for every number of iterations it is still running with its cursor.
\<close>

lemma AttachDeactivateCandidates_loop_unreachable:
  assumes "\<And>w. \<exists>err w'. NewLocker (coordinator h) deactivateCandidatesKey w = (Inl err, w')"
  shows "fst (AttachDeactivateCandidates_loop ex h n cur s) = StillRunning cur"
proof (induction n arbitrary: s)
  case 0
  show ?case by simp
next
  case (Suc n)
  from assms obtain err w' where
    "NewLocker (coordinator h) deactivateCandidatesKey (world s) = (Inl err, w')" by blast
  from deactivateCandidates_no_locker [OF this, of ex cur] Suc.IH show ?case by simp
qed

lemma AttachDocumentHardDeletion_loop_unreachable:
  assumes "\<And>w. \<exists>err w'. NewLocker (coordinator h) documentHardDeletionLockKey w = (Inl err, w')"
  shows "fst (AttachDocumentHardDeletion_loop ex h n cur s) = StillRunning cur"
proof (induction n arbitrary: s)
  case 0
  show ?case by simp
next
  case (Suc n)
  from assms obtain err w' where
    "NewLocker (coordinator h) documentHardDeletionLockKey (world s) = (Inl err, w')" by blast
  from DeleteDocument_no_locker [OF this, of cur] Suc.IH show ?case by simp
qed




end
